theory Spec2Isabelle
  imports Complex_Main "HOL-Library.AList" "HOL-Library.Sublist"
begin

section \<open>Strings\<close>

text \<open>
  A JavaScript string is modelled as an Isabelle \<open>string\<close>: one character stands for the
  UTF-16 code unit of the same value, so the strings of the model are those whose code units
  are below 256. The text handed to \<open>speakText\<close>, whose script test looks at code units
  beyond that range, is a list of code units (\<open>nat list\<close>).
\<close>

text \<open>\<open>s.includes(needle)\<close>: the needle occurs in \<open>s\<close> as a contiguous run.\<close>

fun includes_str :: "string \<Rightarrow> string \<Rightarrow> bool" where
  "includes_str [] needle = (needle = [])"
| "includes_str (c # cs) needle = (prefix needle (c # cs) \<or> includes_str cs needle)"

text \<open>
  \<open>s.toLowerCase()\<close> on code units below 256: the letters A to Z and the accented
  capitals U+00C0 to U+00DE (the multiplication sign U+00D7 apart) move up by 32, which
  on these code units is setting the bit of weight 32.
\<close>

definition lower_char :: "char \<Rightarrow> char" where
  "lower_char c =
     (let n = (of_char c :: nat)
      in if (65 \<le> n \<and> n \<le> 90) \<or> (192 \<le> n \<and> n \<le> 222 \<and> n \<noteq> 215)
         then (case c of Char b0 b1 b2 b3 b4 b5 b6 b7 \<Rightarrow> Char b0 b1 b2 b3 b4 True b6 b7)
         else c)"

definition toLowerCase :: "string \<Rightarrow> string" where
  "toLowerCase s = map lower_char s"

section \<open>The speech module\<close>

text \<open>
  A \<open>SpeechSynthesisVoice\<close> of the browser, with the two fields the module reads, \<open>lang\<close> and \<open>name\<close>.
\<close>

record voice =
  voice_lang :: string
  voice_name :: string

subsection \<open>getCategorizedVoices\<close>

record categorized =
  hindi :: "voice list"
  indianEnglish :: "voice list"
  others :: "voice list"

text \<open>
  The three filters of \<open>getCategorizedVoices\<close>, applied to the list that
  \<open>getAvailableVoices\<close> resolved to.
\<close>

definition getCategorizedVoices :: "voice list \<Rightarrow> categorized" where
  "getCategorizedVoices voices =
     \<lparr> hindi = filter (\<lambda>v. includes_str (voice_lang v) ''hi'' \<or> includes_str (toLowerCase (voice_name v)) ''hindi'') voices,
       indianEnglish = filter (\<lambda>v. voice_lang v = ''en-IN'' \<or>
                          (includes_str (voice_lang v) ''en'' \<and> includes_str (toLowerCase (voice_name v)) ''india'')) voices,
       others = filter (\<lambda>v. \<not> includes_str (voice_lang v) ''hi'' \<and> \<not> includes_str (toLowerCase (voice_name v)) ''hindi'' \<and>
                          voice_lang v \<noteq> ''en-IN'' \<and> \<not> includes_str (toLowerCase (voice_name v)) ''india'') voices \<rparr>"

subsection \<open>speakText\<close>

text \<open>
  A \<open>SpeechSynthesisUtterance\<close>. A new utterance has no voice, an empty language, and rate
  and pitch 1.
\<close>

record utterance =
  utter_text :: "nat list"
  utter_voice :: "voice option"
  utter_lang :: string
  utter_rate :: real
  utter_pitch :: real

definition new_utterance :: "nat list \<Rightarrow> utterance" where
  "new_utterance text =
     \<lparr> utter_text = text, utter_voice = None, utter_lang = [], utter_rate = 1, utter_pitch = 1 \<rparr>"

text \<open>The calls the module makes on the browser, in the order it makes them.\<close>

datatype speech_call =
    Warn string
  | Cancel
  | GetVoices
  | SetOnVoicesChanged
  | SetTimeout nat
  | Speak utterance

text \<open>The script test of \<open>speakText\<close>: some code unit of the text lies in the Devanagari
  block, U+0900 to U+097F.\<close>

definition isHindi :: "nat list \<Rightarrow> bool" where
  "isHindi text = list_ex (\<lambda>u. 0x900 \<le> u \<and> u \<le> 0x97F) text"

text \<open>\<open>a || b\<close> on the results of \<open>Array.find\<close>: a voice is an object, hence truthy.\<close>

definition or_else :: "'a option \<Rightarrow> 'a option \<Rightarrow> 'a option" where
  "or_else a b = (case a of Some x \<Rightarrow> Some x | None \<Rightarrow> b)"

text \<open>
  The block that chooses a voice when the caller gave none. It returns the chosen voice and
  the utterance after the assignment the block makes to its language.
\<close>

definition auto_select :: "voice list \<Rightarrow> nat list \<Rightarrow> utterance \<Rightarrow> voice option \<times> utterance" where
  "auto_select voices text u =
     (if isHindi text then
        (let v = or_else (find (\<lambda>v. includes_str (voice_lang v) ''hi'' \<and> includes_str (voice_name v) ''Google'') voices)
                   (or_else (find (\<lambda>v. includes_str (voice_lang v) ''hi'') voices) None)
         in (v, if v \<noteq> None then u\<lparr>utter_lang := ''hi-IN''\<rparr> else u))
      else
        (let v = or_else (find (\<lambda>v. (voice_lang v = ''en-IN'' \<or> includes_str (voice_lang v) ''en-IN'') \<and>
                                      includes_str (voice_name v) ''Google'') voices)
                   (or_else (find (\<lambda>v. voice_lang v = ''en-IN'' \<or> includes_str (voice_lang v) ''en-IN'') voices)
                     (or_else (find (\<lambda>v. includes_str (voice_name v) ''India'') voices) None))
         in (v, if v \<noteq> None then u\<lparr>utter_lang := ''en-IN''\<rparr> else u)))"

text \<open>
  \<open>speakText(text, voice, rate = 1.0, lang = 'en-US')\<close>. \<open>supported\<close> says whether
  \<open>speechSynthesis\<close> exists in the window, \<open>voices\<close> is what \<open>getVoices()\<close> returns when it
  is asked; an argument left out is \<open>None\<close>. The result is the list of calls made, the
  utterance handed to \<open>speak\<close> among them.
\<close>

definition speakText ::
  "bool \<Rightarrow> voice list \<Rightarrow> nat list \<Rightarrow> voice option \<Rightarrow> real option \<Rightarrow> string option \<Rightarrow> speech_call list" where
  "speakText supported voices text voice rate lang =
     (if \<not> supported then [Warn ''Text-to-speech not supported.'']
      else
        (let rate = (case rate of None \<Rightarrow> 1 | Some r \<Rightarrow> r);
             lang = (case lang of None \<Rightarrow> ''en-US'' | Some l \<Rightarrow> l);
             utterance = new_utterance text;
             (voice, utterance, asked) =
                (case voice of
                   None \<Rightarrow> (let (v, u) = auto_select voices text utterance in (v, u, [GetVoices]))
                 | Some v \<Rightarrow> (Some v, utterance, []));
             utterance =
                (case voice of
                   Some v \<Rightarrow> utterance\<lparr>utter_voice := Some v,
                                 utter_lang := (if voice_lang v \<noteq> [] then voice_lang v else lang)\<rparr>
                 | None \<Rightarrow> utterance\<lparr>utter_lang := lang\<rparr>);
             utterance = utterance\<lparr>utter_rate := rate, utter_pitch := 1\<rparr>
         in [Cancel] @ asked @ [Speak utterance]))"

text \<open>\<open>stopSpeech\<close> cancels when speech synthesis exists.\<close>

definition stopSpeech :: "bool \<Rightarrow> speech_call list" where
  "stopSpeech supported = (if supported then [Cancel] else [])"

subsection \<open>getAvailableVoices\<close>

text \<open>A promise is pending or resolved; only the first resolution counts.\<close>

datatype 'a promise = Pending | Resolved 'a

definition resolve :: "'a promise \<Rightarrow> 'a \<Rightarrow> 'a promise" where
  "resolve p x = (case p of Pending \<Rightarrow> Resolved x | Resolved y \<Rightarrow> Resolved y)"

text \<open>
  The call of \<open>getAvailableVoices\<close> itself: \<open>voices\<close> is what \<open>getVoices()\<close> returns now.
  With no voice yet, the function installs the \<open>onvoiceschanged\<close> handler and a timer of
  2000 ms, and the promise stays pending.
\<close>

definition getAvailableVoices :: "bool \<Rightarrow> voice list \<Rightarrow> speech_call list \<times> voice list promise" where
  "getAvailableVoices supported voices =
     (if \<not> supported then ([], Resolved [])
      else if length voices > 0 then ([GetVoices], Resolved voices)
      else ([GetVoices, SetOnVoicesChanged, SetTimeout 2000], Pending))"

text \<open>
  The two callbacks installed above, run when the browser fires them: each asks for the
  voices again and resolves the promise with them.
\<close>

definition onvoiceschanged :: "voice list \<Rightarrow> voice list promise \<Rightarrow> speech_call list \<times> voice list promise" where
  "onvoiceschanged voices p = ([GetVoices], resolve p voices)"

definition timeout_fallback :: "voice list \<Rightarrow> voice list promise \<Rightarrow> speech_call list \<times> voice list promise" where
  "timeout_fallback voices p = ([GetVoices], resolve p voices)"

section \<open>Values of the action registry\<close>

text \<open>
  The records the registry reads and writes are plain JavaScript values; the code copies
  them and looks at single fields. The numbers held in records are integers: the code computes
  only with indexes and clock readings, every other number in a record is copied. (The
  \<open>count\<close> of \<open>generateGiftCodes\<close>, a loop bound, is a number of its own, whole or not.) An object is the list of its
  properties in insertion order.
\<close>

datatype json =
    JUndef
  | JNull
  | JBool bool
  | JNum int
  | JStr string
  | JArr "json list"
  | JObj "(string \<times> json) list"

text \<open>
  A thrown value is an error object with a message. The texts of the errors the language
  itself raises differ between engines; the ones written here stand for them.
\<close>

datatype exn = Error string | TypeError string | SyntaxError string | ReferenceError string

fun exn_message :: "exn \<Rightarrow> string" where
  "exn_message (Error m) = m"
| "exn_message (TypeError m) = m"
| "exn_message (SyntaxError m) = m"
| "exn_message (ReferenceError m) = m"

text \<open>What \<open>if (x)\<close>, \<open>!x\<close> and \<open>x || y\<close> test.\<close>

fun truthy :: "json \<Rightarrow> bool" where
  "truthy JUndef = False"
| "truthy JNull = False"
| "truthy (JBool b) = b"
| "truthy (JNum n) = (n \<noteq> 0)"
| "truthy (JStr s) = (s \<noteq> [])"
| "truthy (JArr xs) = True"
| "truthy (JObj kvs) = True"

definition or_default :: "json \<Rightarrow> json \<Rightarrow> json" where
  "or_default x d = (if truthy x then x else d)"

text \<open>
  The decimal digits of an integer, as a template literal and \<open>toString\<close> print it (JavaScript
  prints so up to 21 digits, which covers counts and clock readings).
\<close>

fun show_nat :: "nat \<Rightarrow> string" where
  "show_nat n = (if n < 10 then [''0123456789'' ! n]
                 else show_nat (n div 10) @ [''0123456789'' ! (n mod 10)])"

declare show_nat.simps [simp del]

definition show_int :: "int \<Rightarrow> string" where
  "show_int i = (if i < 0 then CHR ''-'' # show_nat (nat (- i)) else show_nat (nat i))"

fun join :: "string \<Rightarrow> string list \<Rightarrow> string" where
  "join sep [] = []"
| "join sep [x] = x"
| "join sep (x # y # ys) = x @ sep @ join sep (y # ys)"

text \<open>The string a value turns into inside a template literal.\<close>

fun to_string :: "json \<Rightarrow> string" where
  "to_string JUndef = ''undefined''"
| "to_string JNull = ''null''"
| "to_string (JBool b) = (if b then ''true'' else ''false'')"
| "to_string (JNum n) = show_int n"
| "to_string (JStr s) = s"
| "to_string (JArr xs) =
     join '','' (map (\<lambda>x. if x = JUndef \<or> x = JNull then [] else to_string x) xs)"
| "to_string (JObj kvs) = ''[object Object]''"

text \<open>
  \<open>x.k\<close> for a value \<open>x\<close> that is neither \<open>null\<close> nor \<open>undefined\<close> and a key that is no
  index and not \<open>length\<close>: the property of an object, \<open>undefined\<close> on anything else.
\<close>

fun get_prop :: "json \<Rightarrow> string \<Rightarrow> json" where
  "get_prop (JObj kvs) k = (case map_of kvs k of Some v \<Rightarrow> v | None \<Rightarrow> JUndef)"
| "get_prop x k = JUndef"

text \<open>The own enumerable properties that \<open>{...x}\<close> copies.\<close>

fun own_props :: "json \<Rightarrow> (string \<times> json) list" where
  "own_props (JObj kvs) = kvs"
| "own_props (JArr xs) = zip (map show_nat [0..<length xs]) xs"
| "own_props (JStr s) = zip (map show_nat [0..<length s]) (map (\<lambda>c. JStr [c]) s)"
| "own_props x = []"

text \<open>
  \<open>{...target, ...x}\<close>: each property of \<open>x\<close> is assigned in turn; a key already there keeps
  its place and takes the new value, a new key goes to the end.
\<close>

definition spread :: "json \<Rightarrow> (string \<times> json) list \<Rightarrow> (string \<times> json) list" where
  "spread x target = fold (\<lambda>(k, v). AList.update k v) (own_props x) target"

text \<open>\<open>[...x]\<close>: the elements of an array, the characters of a string, a TypeError otherwise.\<close>

fun iterate :: "json \<Rightarrow> exn + json list" where
  "iterate (JArr xs) = Inr xs"
| "iterate (JStr s) = Inr (map (\<lambda>c. JStr [c]) s)"
| "iterate x = Inl (TypeError ''value is not iterable'')"

text \<open>\<open>s.charAt(i)\<close>: the empty string out of range.\<close>

definition charAt :: "string \<Rightarrow> int \<Rightarrow> string" where
  "charAt s i = (if 0 \<le> i \<and> i < int (length s) then [s ! nat i] else [])"

text \<open>
  \<open>s.toUpperCase()\<close> on the code units whose capital is again below 256: a to z and the
  accented small letters U+00E0 to U+00FE (the division sign U+00F7 apart) move down by 32.
  The three letters below 256 whose capital lies elsewhere (sharp s, the micro sign, y with
  diaeresis) are left as they are; the only strings capitalised are the gift codes, which are
  made of \<open>codeChars\<close>.
\<close>

definition upper_char :: "char \<Rightarrow> char" where
  "upper_char c =
     (let n = (of_char c :: nat)
      in if (97 \<le> n \<and> n \<le> 122) \<or> (224 \<le> n \<and> n \<le> 254 \<and> n \<noteq> 247)
         then (case c of Char b0 b1 b2 b3 b4 b5 b6 b7 \<Rightarrow> Char b0 b1 b2 b3 b4 False b6 b7)
         else c)"

definition toUpperCase :: "string \<Rightarrow> string" where
  "toUpperCase s = map upper_char s"

text \<open>\<open>s.replace(/\s+/g, '')\<close>: every white-space code unit goes.\<close>

definition is_space :: "char \<Rightarrow> bool" where
  "is_space c = ((of_char c :: nat) \<in> {9, 10, 11, 12, 13, 32, 160})"

definition remove_spaces :: "string \<Rightarrow> string" where
  "remove_spaces s = filter (\<lambda>c. \<not> is_space c) s"

section \<open>External calls\<close>

text \<open>
  Every action is a sequence of calls on services outside the program: the realtime
  database, the document store, the helpers of the \<open>firebase\<close> module, the auto-pilot
  service, the browser's local storage, the clock and the random generator. An action is
  modelled as the tree of the calls it makes: a node is a call, and its continuation says
  how the action goes on from each answer the call can have, a rejection among them.
\<close>

text \<open>
  Reads that resolve to one value. \<open>Rtdb path\<close> is \<open>get(ref(rtdb, path))\<close>, answered with
  the snapshot's value, \<open>null\<close> where there is no data. \<open>ChapterData key\<close> is
  \<open>getChapterData(key)\<close>; the source calls it without importing it, and where the name is
  bound to nothing the call is answered with a ReferenceError.
\<close>

datatype source = Rtdb string | ChapterData string

text \<open>
  The two queries handed to \<open>getDocs\<close>: the whole \<open>users\<close> collection, and the
  \<open>ai_interactions\<close> collection ordered by timestamp, descending, limited to the last
  \<open>n\<close>. The answer is the list of \<open>doc.data()\<close> of the documents found.
\<close>

datatype query = UsersCollection | AiInteractions int

text \<open>Calls that resolve to nothing.\<close>

datatype command =
    DeleteDoc string string
  | RtdbRemove string
  | RtdbSet string json
  | RtdbUpdate string json
  | SaveUserToLive json
  | SaveSystemSettings json
  | SaveChapterData string json
  | RunAutoPilotService json
  | SetItem string string

datatype 'a prog =
    Return 'a
  | Throw exn
  | Fetch source "exn + json \<Rightarrow> 'a prog"
  | GetDocs query "exn + json list \<Rightarrow> 'a prog"
  | GetItem string "exn + string option \<Rightarrow> 'a prog"
  | Exec command "exn option \<Rightarrow> 'a prog"
  | Now "int \<Rightarrow> 'a prog"
  | Random "real \<Rightarrow> 'a prog"
  | ConsoleError string exn "'a prog"

text \<open>\<open>await\<close> of a call: a rejection is thrown where the call stands.\<close>

definition fetch :: "source \<Rightarrow> json prog" where
  "fetch s = Fetch s (\<lambda>r. case r of Inl e \<Rightarrow> Throw e | Inr v \<Rightarrow> Return v)"

definition getDocs :: "query \<Rightarrow> json list prog" where
  "getDocs q = GetDocs q (\<lambda>r. case r of Inl e \<Rightarrow> Throw e | Inr ds \<Rightarrow> Return ds)"

definition getItem :: "string \<Rightarrow> string option prog" where
  "getItem k = GetItem k (\<lambda>r. case r of Inl e \<Rightarrow> Throw e | Inr v \<Rightarrow> Return v)"

definition exec :: "command \<Rightarrow> unit prog" where
  "exec c = Exec c (\<lambda>r. case r of Some e \<Rightarrow> Throw e | None \<Rightarrow> Return ())"

text \<open>Sequencing: the second part runs on the value of the first, unless the first threw.\<close>

primrec bind_prog :: "'a prog \<Rightarrow> ('a \<Rightarrow> 'b prog) \<Rightarrow> 'b prog" where
  "bind_prog (Return a) f = f a"
| "bind_prog (Throw e) f = Throw e"
| "bind_prog (Fetch s k) f = Fetch s (\<lambda>r. bind_prog (k r) f)"
| "bind_prog (GetDocs q k) f = GetDocs q (\<lambda>r. bind_prog (k r) f)"
| "bind_prog (GetItem i k) f = GetItem i (\<lambda>r. bind_prog (k r) f)"
| "bind_prog (Exec c k) f = Exec c (\<lambda>r. bind_prog (k r) f)"
| "bind_prog (Now k) f = Now (\<lambda>r. bind_prog (k r) f)"
| "bind_prog (Random k) f = Random (\<lambda>r. bind_prog (k r) f)"
| "bind_prog (ConsoleError m e p) f = ConsoleError m e (bind_prog p f)"

text \<open>\<open>try { p } catch (e) { h e }\<close>.\<close>

primrec try_catch :: "'a prog \<Rightarrow> (exn \<Rightarrow> 'a prog) \<Rightarrow> 'a prog" where
  "try_catch (Return a) h = Return a"
| "try_catch (Throw e) h = h e"
| "try_catch (Fetch s k) h = Fetch s (\<lambda>r. try_catch (k r) h)"
| "try_catch (GetDocs q k) h = GetDocs q (\<lambda>r. try_catch (k r) h)"
| "try_catch (GetItem i k) h = GetItem i (\<lambda>r. try_catch (k r) h)"
| "try_catch (Exec c k) h = Exec c (\<lambda>r. try_catch (k r) h)"
| "try_catch (Now k) h = Now (\<lambda>r. try_catch (k r) h)"
| "try_catch (Random k) h = Random (\<lambda>r. try_catch (k r) h)"
| "try_catch (ConsoleError m e p) h = ConsoleError m e (try_catch p h)"

text \<open>A value or an error computed without a call, put where a program is expected.\<close>

definition lift :: "exn + 'a \<Rightarrow> 'a prog" where
  "lift r = (case r of Inl e \<Rightarrow> Throw e | Inr a \<Rightarrow> Return a)"

subsection \<open>Running an action against the services\<close>

text \<open>
  The services are a handler: for each kind of call, the answer and the services' next
  state. \<open>Inl\<close> and \<open>Some\<close> are rejections.
\<close>

record 'w handler =
  on_fetch :: "'w \<Rightarrow> source \<Rightarrow> (exn + json) \<times> 'w"
  on_docs :: "'w \<Rightarrow> query \<Rightarrow> (exn + json list) \<times> 'w"
  on_item :: "'w \<Rightarrow> string \<Rightarrow> (exn + string option) \<times> 'w"
  on_exec :: "'w \<Rightarrow> command \<Rightarrow> exn option \<times> 'w"
  on_now :: "'w \<Rightarrow> int \<times> 'w"
  on_random :: "'w \<Rightarrow> real \<times> 'w"

text \<open>What an observer of the services sees of a run: the calls and their answers.\<close>

datatype event =
    EFetch source "exn + json"
  | EDocs query "exn + json list"
  | EItem string "exn + string option"
  | EExec command "exn option"
  | ENow int
  | ERandom real
  | ELog string exn

text \<open>
  A run gives the outcome (\<open>Inl\<close> when the action threw), the calls made in order, and the
  state the services are left in.
\<close>

primrec run :: "'w handler \<Rightarrow> 'a prog \<Rightarrow> 'w \<Rightarrow> (exn + 'a) \<times> event list \<times> 'w" where
  "run H (Return a) w = (Inr a, [], w)"
| "run H (Throw e) w = (Inl e, [], w)"
| "run H (Fetch s k) w =
     (let (r, w1) = on_fetch H w s; (out, tr, w2) = run H (k r) w1 in (out, EFetch s r # tr, w2))"
| "run H (GetDocs q k) w =
     (let (r, w1) = on_docs H w q; (out, tr, w2) = run H (k r) w1 in (out, EDocs q r # tr, w2))"
| "run H (GetItem i k) w =
     (let (r, w1) = on_item H w i; (out, tr, w2) = run H (k r) w1 in (out, EItem i r # tr, w2))"
| "run H (Exec c k) w =
     (let (r, w1) = on_exec H w c; (out, tr, w2) = run H (k r) w1 in (out, EExec c r # tr, w2))"
| "run H (Now k) w =
     (let (r, w1) = on_now H w; (out, tr, w2) = run H (k r) w1 in (out, ENow r # tr, w2))"
| "run H (Random k) w =
     (let (r, w1) = on_random H w; (out, tr, w2) = run H (k r) w1 in (out, ERandom r # tr, w2))"
| "run H (ConsoleError m e p) w =
     (let (out, tr, w2) = run H p w in (out, ELog m e # tr, w2))"

subsection \<open>The platform\<close>

text \<open>
  Functions of the JavaScript platform that the actions apply to values, and the one constant
  the registry imports from the \<open>constants\<close> module. They are parameters: the actions are
  modelled for any date arithmetic, any JSON printer and parser, and any default subjects.
  A date is its time value in milliseconds; \<open>date_of\<close> is \<open>new Date(x)\<close>, \<open>None\<close> for an
  invalid date. \<open>number_toString\<close> is how a number that is not whole prints.
\<close>

record host =
  toISOString :: "int \<Rightarrow> string"
  getDate :: "int \<Rightarrow> int"
  setDate :: "int \<Rightarrow> int \<Rightarrow> int"
  getMonth :: "int \<Rightarrow> int"
  setMonth :: "int \<Rightarrow> int \<Rightarrow> int"
  date_of :: "json \<Rightarrow> int option"
  JSON_parse :: "string \<Rightarrow> exn + json"
  JSON_stringify :: "json \<Rightarrow> string"
  number_toString :: "real \<Rightarrow> string"
  DEFAULT_SUBJECTS :: json

text \<open>
  A number inside a template literal: a whole number prints its decimal digits, any other
  number as the platform prints it.
\<close>

definition show_number :: "host \<Rightarrow> real \<Rightarrow> string" where
  "show_number P x = (if x = of_int \<lfloor>x\<rfloor> then show_int \<lfloor>x\<rfloor> else number_toString P x)"

section \<open>The actions\<close>

text \<open>\<open>snapshot.exists()\<close>: there is data, that is, the value is not \<open>null\<close>.\<close>

definition snapshot_exists :: "json \<Rightarrow> bool" where
  "snapshot_exists v = (v \<noteq> JNull)"

definition getAllUsers :: "json list prog" where
  "getAllUsers =
     try_catch
       (bind_prog (getDocs UsersCollection) (\<lambda>docs. Return docs))
       (\<lambda>e. ConsoleError ''Error fetching users:'' e (Return []))"

definition getSettings :: "json prog" where
  "getSettings =
     try_catch
       (bind_prog (fetch (Rtdb ''system_settings'')) (\<lambda>snapshot.
          if snapshot_exists snapshot then Return snapshot else Return JNull))
       (\<lambda>e. Return JNull)"

definition deleteUser :: "string \<Rightarrow> json prog" where
  "deleteUser userId =
     try_catch
       (bind_prog (exec (DeleteDoc ''users'' userId)) (\<lambda>_.
        bind_prog (exec (RtdbRemove (''users/'' @ userId))) (\<lambda>_.
        Return (JStr (''User '' @ userId @ '' deleted successfully from Firestore and RTDB.'')))))
       (\<lambda>e. Throw (Error (''Failed to delete user '' @ userId @ '': '' @ exn_message e)))"

definition updateUser :: "string \<Rightarrow> json \<Rightarrow> json prog" where
  "updateUser userId updates =
     try_catch
       (bind_prog (fetch (Rtdb (''users/'' @ userId))) (\<lambda>snapshot.
          if \<not> snapshot_exists snapshot then Throw (Error ''User not found'')
          else
            (let currentUser = snapshot;
                 updatedUser = JObj (spread updates (spread currentUser []))
             in bind_prog (exec (SaveUserToLive updatedUser)) (\<lambda>_.
                Return (JStr (''User '' @ userId @ '' updated.''))))))
       (\<lambda>e. Throw (Error (''Failed to update user: '' @ exn_message e)))"

definition banUser :: "string \<Rightarrow> string \<Rightarrow> json prog" where
  "banUser userId reason = updateUser userId (JObj [(''isLocked'', JBool True)])"

definition unbanUser :: "string \<Rightarrow> json prog" where
  "unbanUser userId = updateUser userId (JObj [(''isLocked'', JBool False)])"

datatype plan = WEEKLY | MONTHLY | YEARLY | LIFETIME

datatype level = BASIC | ULTRA

fun plan_name :: "plan \<Rightarrow> string" where
  "plan_name WEEKLY = ''WEEKLY''"
| "plan_name MONTHLY = ''MONTHLY''"
| "plan_name YEARLY = ''YEARLY''"
| "plan_name LIFETIME = ''LIFETIME''"

fun level_name :: "level \<Rightarrow> string" where
  "level_name BASIC = ''BASIC''"
| "level_name ULTRA = ''ULTRA''"

text \<open>
  \<open>grantSubscription\<close> reads the clock three times (\<open>now\<close>, \<open>endDate\<close>, and \<open>Date.now()\<close> in
  the entry's id), then reads the user itself, before \<open>updateUser\<close> reads it again.
\<close>

definition grantSubscription :: "host \<Rightarrow> string \<Rightarrow> plan \<Rightarrow> level \<Rightarrow> json prog" where
  "grantSubscription P userId plan level =
     Now (\<lambda>now. Now (\<lambda>endDate0.
       (let endDate =
              (if plan = WEEKLY then Some (setDate P endDate0 (getDate P now + 7))
               else if plan = MONTHLY then Some (setDate P endDate0 (getDate P now + 30))
               else if plan = YEARLY then Some (setDate P endDate0 (getDate P now + 365))
               else None)
        in Now (\<lambda>stamp.
          (let historyEntry = JObj
                 [(''id'', JStr (''grant-'' @ show_int stamp)),
                  (''tier'', JStr (plan_name plan)),
                  (''level'', JStr (level_name level)),
                  (''startDate'', JStr (toISOString P now)),
                  (''endDate'', JStr (case endDate of Some d \<Rightarrow> toISOString P d | None \<Rightarrow> ''LIFETIME'')),
                  (''durationHours'', JNum 0),
                  (''price'', JNum 0),
                  (''originalPrice'', JNum 0),
                  (''isFree'', JBool True),
                  (''grantSource'', JStr ''ADMIN''),
                  (''grantedBy'', JStr ''AI_AGENT'')]
           in bind_prog (fetch (Rtdb (''users/'' @ userId))) (\<lambda>snapshot.
                if \<not> snapshot_exists snapshot then Throw (Error ''User not found'')
                else
                  (let user = snapshot
                   in bind_prog (lift (iterate (or_default (get_prop user ''subscriptionHistory'') (JArr []))))
                        (\<lambda>history.
                          (let newHistory = JArr (historyEntry # history)
                           in updateUser userId (JObj
                                [(''subscriptionTier'', JStr (plan_name plan)),
                                 (''subscriptionLevel'', JStr (level_name level)),
                                 (''subscriptionEndDate'',
                                    (case endDate of Some d \<Rightarrow> JStr (toISOString P d) | None \<Rightarrow> JUndef)),
                                 (''isPremium'', JBool True),
                                 (''subscriptionHistory'', newHistory),
                                 (''grantedByAdmin'', JBool True)]))))))))))"

definition broadcastMessage :: "string \<Rightarrow> json prog" where
  "broadcastMessage message =
     bind_prog getSettings (\<lambda>settings.
       if truthy settings then
         (let newSettings = JObj (AList.update ''noticeText'' (JStr message) (spread settings []))
          in bind_prog (exec (SaveSystemSettings newSettings)) (\<lambda>_.
             Return (JStr ''Broadcast banner updated successfully.'')))
       else Return (JStr ''Failed to fetch settings.''))"

definition sendInboxMessage :: "host \<Rightarrow> string \<Rightarrow> string \<Rightarrow> json prog" where
  "sendInboxMessage P userId text =
     bind_prog (fetch (Rtdb (''users/'' @ userId))) (\<lambda>snapshot.
       if \<not> snapshot_exists snapshot then Throw (Error ''User not found'')
       else
         (let user = snapshot
          in Now (\<lambda>stamp. Now (\<lambda>date.
               (let newMsg = JObj
                      [(''id'', JStr (''msg-'' @ show_int stamp)),
                       (''text'', JStr text),
                       (''date'', JStr (toISOString P date)),
                       (''read'', JBool False),
                       (''type'', JStr ''TEXT'')]
                in bind_prog (lift (iterate (or_default (get_prop user ''inbox'') (JArr [])))) (\<lambda>inbox.
                     (let updatedInbox = JArr (newMsg # inbox)
                      in bind_prog (updateUser userId (JObj [(''inbox'', updatedInbox)])) (\<lambda>_.
                         Return (JStr (''Message sent to '' @ to_string (get_prop user ''name'') @ ''.''))))))))))"

definition createWeeklyTest :: "host \<Rightarrow> string \<Rightarrow> string \<Rightarrow> int \<Rightarrow> json prog" where
  "createWeeklyTest P name subject questionCount =
     bind_prog getSettings (\<lambda>settings.
       if \<not> truthy settings then Throw (Error ''Settings not found'')
       else Now (\<lambda>stamp. Now (\<lambda>created.
         (let newTest = JObj
                [(''id'', JStr (''test-'' @ show_int stamp)),
                 (''name'', JStr name),
                 (''description'', JStr (''Subject: '' @ subject)),
                 (''isActive'', JBool True),
                 (''classLevel'', JStr ''10''),
                 (''questions'', JArr []),
                 (''totalQuestions'', JNum questionCount),
                 (''passingScore'', JNum 40),
                 (''createdAt'', JStr (toISOString P created)),
                 (''durationMinutes'', JNum 60),
                 (''selectedSubjects'', JArr [JStr subject])]
          in bind_prog (lift (iterate (or_default (get_prop settings ''weeklyTests'') (JArr [])))) (\<lambda>tests.
               (let updatedTests = JArr (tests @ [newTest])
                in bind_prog (exec (SaveSystemSettings
                        (JObj (AList.update ''weeklyTests'' updatedTests (spread settings []))))) (\<lambda>_.
                   Return (JStr (''Weekly Test \"'' @ name @ ''\" created (Empty Questions).'')))))))))"

text \<open>The filter of \<open>scanUsers\<close>; \<open>ALL_USERS\<close> is the source's \<open>'ALL'\<close>.\<close>

datatype user_filter = ALL_USERS | PREMIUM | FREE | INACTIVE

text \<open>
  \<open>new Date(x) < monthAgo\<close>: the comparison of the time values, false for an invalid date.
\<close>

definition date_before :: "host \<Rightarrow> json \<Rightarrow> int \<Rightarrow> bool" where
  "date_before P x t = (case date_of P x of Some d \<Rightarrow> d < t | None \<Rightarrow> False)"

definition scanUsers :: "host \<Rightarrow> user_filter \<Rightarrow> json prog" where
  "scanUsers P flt =
     bind_prog getAllUsers (\<lambda>users.
       (let result = users;
            result = (if flt = PREMIUM then filter (\<lambda>u. truthy (get_prop u ''isPremium'')) users else result);
            result = (if flt = FREE then filter (\<lambda>u. \<not> truthy (get_prop u ''isPremium'')) users else result)
        in bind_prog
             (if flt = INACTIVE then
                Now (\<lambda>monthAgo0.
                  (let monthAgo = setMonth P monthAgo0 (getMonth P monthAgo0 - 1)
                   in Return (filter (\<lambda>u. \<not> truthy (get_prop u ''lastActiveTime'') \<or>
                                        date_before P (get_prop u ''lastActiveTime'') monthAgo) users)))
              else Return result)
             (\<lambda>result.
                Return (JArr (map (\<lambda>u. JObj
                  [(''id'', get_prop u ''id''),
                   (''name'', get_prop u ''name''),
                   (''email'', get_prop u ''email''),
                   (''role'', get_prop u ''role''),
                   (''credits'', get_prop u ''credits''),
                   (''tier'', get_prop u ''subscriptionTier'')]) result)))))"

text \<open>\<open>getRecentLogs(limit = 20)\<close>; \<open>None\<close> is the argument left out.\<close>

definition getRecentLogs :: "int option \<Rightarrow> json prog" where
  "getRecentLogs limit_arg =
     (let limit_v = (case limit_arg of None \<Rightarrow> 20 | Some n \<Rightarrow> n)
      in try_catch
           (bind_prog (getDocs (AiInteractions limit_v)) (\<lambda>docs. Return (JArr docs)))
           (\<lambda>e. Return (JArr [])))"

text \<open>\<open>localStorage.getItem(k) || d\<close>: the default for a missing or empty item.\<close>

definition item_or :: "string option \<Rightarrow> string \<Rightarrow> string" where
  "item_or item d = (case item of None \<Rightarrow> d | Some s \<Rightarrow> if s = [] then d else s)"

definition addSubject :: "host \<Rightarrow> string \<Rightarrow> json prog" where
  "addSubject P name =
     (let subject_id = remove_spaces (toLowerCase name);
          newSubject = JObj
            [(''id'', JStr subject_id),
             (''name'', JStr name),
             (''icon'', JStr ''book''),
             (''color'', JStr ''bg-slate-50 text-slate-600'')]
      in bind_prog (getItem ''nst_custom_subjects_pool'') (\<lambda>item.
         bind_prog (lift (JSON_parse P (item_or item ''{}''))) (\<lambda>customPool.
           (let updatedPool = JObj (AList.update subject_id newSubject
                                (spread customPool (spread (DEFAULT_SUBJECTS P) [])))
            in bind_prog (exec (SetItem ''nst_custom_subjects_pool'' (JSON_stringify P updatedPool))) (\<lambda>_.
               Return (JStr (''Subject '' @ name @ '' added locally.'')))))))"

datatype gift_type = CREDITS | SUBSCRIPTION

fun gift_type_name :: "gift_type \<Rightarrow> string" where
  "gift_type_name CREDITS = ''CREDITS''"
| "gift_type_name SUBSCRIPTION = ''SUBSCRIPTION''"

definition codeChars :: string where
  "codeChars = ''ABCDEFGHJKLMNPQRSTUVWXYZ23456789''"

text \<open>
  The inner loop of \<open>generateGiftCodes\<close>: from \<open>j\<close> up to 12, one character of \<open>codeChars\<close> at
  the index \<open>Math.floor(Math.random() * codeChars.length)\<close> is appended to the code.
\<close>

function random_code :: "int \<Rightarrow> string \<Rightarrow> string prog" where
  "random_code j code =
     (if j < 12 then
        Random (\<lambda>r. random_code (j + 1)
                       (code @ charAt codeChars \<lfloor>r * real (length codeChars)\<rfloor>))
      else Return code)"
  by pat_completeness auto
termination
  by (relation "measure (\<lambda>(j, code). nat (12 - j))") auto

declare random_code.simps [simp del]

text \<open>
  The outer loop, from \<open>i\<close> up to \<open>count\<close>: a code is drawn, the record is built (the clock
  is read for its id and again for its creation date), pushed, and set in the database. The
  index \<open>i\<close> counts up from 0 in steps of 1; \<open>count\<close> is the number the caller gave, whole or
  not (and finite, as the numbers of a tool call's JSON arguments are), and the loop goes on
  while \<open>i < count\<close>.
\<close>

function gift_loop :: "host \<Rightarrow> int \<Rightarrow> real \<Rightarrow> gift_type \<Rightarrow> int \<Rightarrow> json list \<Rightarrow> json list prog" where
  "gift_loop P amount count gtype i newCodes =
     (if of_int i < count then
        bind_prog (random_code 0 []) (\<lambda>code.
          Now (\<lambda>stamp. Now (\<lambda>created.
            (let newGiftCode = JObj
                   [(''id'', JStr (show_int stamp @ show_int i)),
                    (''code'', JStr (toUpperCase code)),
                    (''type'', JStr (gift_type_name gtype)),
                    (''amount'', JNum (if gtype = CREDITS then amount else 0)),
                    (''subTier'', if gtype = SUBSCRIPTION then JStr ''WEEKLY'' else JUndef),
                    (''subLevel'', if gtype = SUBSCRIPTION then JStr ''BASIC'' else JUndef),
                    (''createdAt'', JStr (toISOString P created)),
                    (''isRedeemed'', JBool False),
                    (''generatedBy'', JStr ''AI_ADMIN''),
                    (''maxUses'', JNum 1),
                    (''usedCount'', JNum 0),
                    (''redeemedBy'', JArr [])]
             in bind_prog (exec (RtdbSet (''redeem_codes/'' @ to_string (get_prop newGiftCode ''code''))
                                   newGiftCode)) (\<lambda>_.
                gift_loop P amount count gtype (i + 1) (newCodes @ [newGiftCode]))))))
      else Return newCodes)"
  by pat_completeness auto
termination
  by (relation "measure (\<lambda>(P, amount, count, gtype, i, newCodes). nat (\<lceil>count\<rceil> - i))")
    (auto simp: less_ceiling_iff)

declare gift_loop.simps [simp del]

text \<open>\<open>generateGiftCodes(amount, count, type = 'CREDITS')\<close>; \<open>None\<close> is the type left out.\<close>

definition generateGiftCodes :: "host \<Rightarrow> int \<Rightarrow> real \<Rightarrow> gift_type option \<Rightarrow> json prog" where
  "generateGiftCodes P amount count gtype_arg =
     (let gtype = (case gtype_arg of None \<Rightarrow> CREDITS | Some t \<Rightarrow> t)
      in bind_prog (gift_loop P amount count gtype 0 []) (\<lambda>newCodes.
         bind_prog (getItem ''nst_admin_codes'') (\<lambda>item.
         bind_prog (lift (JSON_parse P (item_or item ''[]''))) (\<lambda>existing.
         bind_prog (lift (iterate existing)) (\<lambda>old_codes.
         bind_prog (exec (SetItem ''nst_admin_codes'' (JSON_stringify P (JArr (newCodes @ old_codes))))) (\<lambda>_.
         Return (JStr (show_number P count @ '' Gift Codes Generated: '' @
                       join '', '' (map (\<lambda>c. to_string (get_prop c ''code'')) newCodes)))))))))"

definition updateSystemSettings :: "json \<Rightarrow> json prog" where
  "updateSystemSettings updates =
     bind_prog getSettings (\<lambda>settings.
       if \<not> truthy settings then Throw (Error ''Settings not found'')
       else
         (let newSettings = JObj (spread updates (spread settings []))
          in bind_prog (exec (SaveSystemSettings newSettings)) (\<lambda>_.
             Return (JStr ''Settings updated.''))))"

definition toggleSetting :: "string \<Rightarrow> bool \<Rightarrow> json prog" where
  "toggleSetting key val = updateSystemSettings (JObj [(key, JBool val)])"

definition addPackage :: "string \<Rightarrow> int \<Rightarrow> int \<Rightarrow> json prog" where
  "addPackage name price credits =
     bind_prog getSettings (\<lambda>settings.
       if \<not> truthy settings then Throw (Error ''Settings not found'')
       else Now (\<lambda>stamp.
         (let newPkg = JObj
                [(''id'', JStr (''pkg-'' @ show_int stamp)),
                 (''name'', JStr name),
                 (''price'', JNum price),
                 (''credits'', JNum credits)]
          in bind_prog (lift (iterate (or_default (get_prop settings ''packages'') (JArr [])))) (\<lambda>old_packages.
               (let packages = JArr (old_packages @ [newPkg])
                in bind_prog (exec (SaveSystemSettings
                        (JObj (AList.update ''packages'' packages (spread settings []))))) (\<lambda>_.
                   Return (JStr (''Package '' @ name @ '' added.''))))))))"

text \<open>
  \<open>x.filter(p => p.id !== id)\<close>: only an array has \<open>filter\<close>, and reading \<open>p.id\<close> of a
  \<open>null\<close> element is a TypeError.
\<close>

fun filter_packages :: "json \<Rightarrow> string \<Rightarrow> exn + json list" where
  "filter_packages (JArr ps) pkg_id =
     (if list_ex (\<lambda>p. p = JNull \<or> p = JUndef) ps
      then Inl (TypeError ''cannot read properties of null'')
      else Inr (filter (\<lambda>p. get_prop p ''id'' \<noteq> JStr pkg_id) ps))"
| "filter_packages x pkg_id = Inl (TypeError ''filter is not a function'')"

definition removePackage :: "string \<Rightarrow> json prog" where
  "removePackage pkg_id =
     bind_prog getSettings (\<lambda>settings.
       if \<not> truthy settings then Throw (Error ''Settings not found'')
       else
         bind_prog (lift (filter_packages (or_default (get_prop settings ''packages'') (JArr [])) pkg_id))
           (\<lambda>kept.
             (let packages = JArr kept
              in bind_prog (exec (SaveSystemSettings
                      (JObj (AList.update ''packages'' packages (spread settings []))))) (\<lambda>_.
                 Return (JStr (''Package '' @ pkg_id @ '' removed.''))))))"

definition promoteSubAdmin :: "string \<Rightarrow> json prog" where
  "promoteSubAdmin userId =
     updateUser userId (JObj
       [(''role'', JStr ''SUB_ADMIN''),
        (''isSubAdmin'', JBool True),
        (''permissions'', JArr [JStr ''MANAGE_SUBS''])])"

definition demoteSubAdmin :: "string \<Rightarrow> json prog" where
  "demoteSubAdmin userId =
     updateUser userId (JObj
       [(''role'', JStr ''STUDENT''),
        (''isSubAdmin'', JBool False),
        (''permissions'', JArr [])])"

definition approveRecoveryRequest :: "string \<Rightarrow> json prog" where
  "approveRecoveryRequest requestId =
     bind_prog (exec (RtdbUpdate (''recovery_requests/'' @ requestId)
                        (JObj [(''status'', JStr ''RESOLVED'')]))) (\<lambda>_.
     bind_prog (updateUser requestId (JObj [(''isPasswordless'', JBool True)])) (\<lambda>_.
     Return (JStr (''Request '' @ requestId @ '' approved.''))))"

definition addUniversalVideo :: "string \<Rightarrow> string \<Rightarrow> json prog" where
  "addUniversalVideo title url =
     bind_prog (fetch (ChapterData ''nst_universal_playlist'')) (\<lambda>found.
       (let data = or_default found (JObj [(''videoPlaylist'', JArr [])])
        in bind_prog (lift (iterate (or_default (get_prop data ''videoPlaylist'') (JArr [])))) (\<lambda>videos.
             (let playlist = JArr (videos @
                    [JObj [(''title'', JStr title), (''url'', JStr url),
                           (''price'', JNum 0), (''access'', JStr ''FREE'')]])
              in bind_prog (exec (SaveChapterData ''nst_universal_playlist''
                                    (JObj [(''videoPlaylist'', playlist)]))) (\<lambda>_.
                 Return (JStr (''Video \"'' @ title @ ''\" added to Universal Playlist.'')))))))"

definition saveCustomBloggerPage :: "string \<Rightarrow> json prog" where
  "saveCustomBloggerPage html =
     bind_prog (exec (RtdbSet ''custom_blogger_page'' (JStr html))) (\<lambda>_.
     Return (JStr ''Custom Blogger Page saved.''))"

definition softDelete :: "string \<Rightarrow> string \<Rightarrow> json prog" where
  "softDelete kind item_id =
     Return (JStr ''Soft delete not fully supported via AI yet, please use Dashboard.'')"

text \<open>
  \<open>runAutoPilot\<close> hands the settings to the auto-pilot service, with a logging callback and
  the fixed arguments \<open>true\<close>, 5 and an empty list.
\<close>

definition runAutoPilot :: "json prog" where
  "runAutoPilot =
     bind_prog getSettings (\<lambda>settings.
       if \<not> truthy settings then Return (JStr ''Settings failure.'')
       else bind_prog (exec (RunAutoPilotService settings)) (\<lambda>_.
            Return (JStr ''Auto-Pilot cycle triggered.'')))"

section \<open>The registry map\<close>

text \<open>
  An invocation of the registry: one of its keys with arguments of the types the function
  under that key declares.
\<close>

datatype action =
    DeleteUser string
  | UpdateUser string json
  | BanUser string string
  | UnbanUser string
  | GrantSubscription string plan level
  | BroadcastMessage string
  | SendInboxMessage string string
  | CreateWeeklyTest string string int
  | ScanUsers user_filter
  | GetRecentLogs "int option"
  | AddSubject string
  | GenerateGiftCodes int real "gift_type option"
  | UpdateSystemSettings json
  | ToggleSetting string bool
  | AddPackage string int int
  | RemovePackage string
  | PromoteSubAdmin string
  | DemoteSubAdmin string
  | ApproveRecoveryRequest string
  | AddUniversalVideo string string
  | SaveCustomBloggerPage string
  | RunAutoPilot

fun ActionRegistry :: "host \<Rightarrow> action \<Rightarrow> json prog" where
  "ActionRegistry P (DeleteUser userId) = deleteUser userId"
| "ActionRegistry P (UpdateUser userId updates) = updateUser userId updates"
| "ActionRegistry P (BanUser userId reason) = banUser userId reason"
| "ActionRegistry P (UnbanUser userId) = unbanUser userId"
| "ActionRegistry P (GrantSubscription userId plan level) = grantSubscription P userId plan level"
| "ActionRegistry P (BroadcastMessage message) = broadcastMessage message"
| "ActionRegistry P (SendInboxMessage userId text) = sendInboxMessage P userId text"
| "ActionRegistry P (CreateWeeklyTest name subject questionCount) = createWeeklyTest P name subject questionCount"
| "ActionRegistry P (ScanUsers flt) = scanUsers P flt"
| "ActionRegistry P (GetRecentLogs limit_arg) = getRecentLogs limit_arg"
| "ActionRegistry P (AddSubject name) = addSubject P name"
| "ActionRegistry P (GenerateGiftCodes amount count gtype) = generateGiftCodes P amount count gtype"
| "ActionRegistry P (UpdateSystemSettings updates) = updateSystemSettings updates"
| "ActionRegistry P (ToggleSetting key val) = toggleSetting key val"
| "ActionRegistry P (AddPackage name price credits) = addPackage name price credits"
| "ActionRegistry P (RemovePackage pkg_id) = removePackage pkg_id"
| "ActionRegistry P (PromoteSubAdmin userId) = promoteSubAdmin userId"
| "ActionRegistry P (DemoteSubAdmin userId) = demoteSubAdmin userId"
| "ActionRegistry P (ApproveRecoveryRequest requestId) = approveRecoveryRequest requestId"
| "ActionRegistry P (AddUniversalVideo title url) = addUniversalVideo title url"
| "ActionRegistry P (SaveCustomBloggerPage html) = saveCustomBloggerPage html"
| "ActionRegistry P RunAutoPilot = runAutoPilot"

text \<open>The key under which the registry holds the function an invocation calls.\<close>

fun action_key :: "action \<Rightarrow> string" where
  "action_key (DeleteUser userId) = ''deleteUser''"
| "action_key (UpdateUser userId updates) = ''updateUser''"
| "action_key (BanUser userId reason) = ''banUser''"
| "action_key (UnbanUser userId) = ''unbanUser''"
| "action_key (GrantSubscription userId plan level) = ''grantSubscription''"
| "action_key (BroadcastMessage message) = ''broadcastMessage''"
| "action_key (SendInboxMessage userId text) = ''sendInboxMessage''"
| "action_key (CreateWeeklyTest name subject questionCount) = ''createWeeklyTest''"
| "action_key (ScanUsers flt) = ''scanUsers''"
| "action_key (GetRecentLogs limit_arg) = ''getRecentLogs''"
| "action_key (AddSubject name) = ''addSubject''"
| "action_key (GenerateGiftCodes amount count gtype) = ''generateGiftCodes''"
| "action_key (UpdateSystemSettings updates) = ''updateSystemSettings''"
| "action_key (ToggleSetting key val) = ''toggleSetting''"
| "action_key (AddPackage name price credits) = ''addPackage''"
| "action_key (RemovePackage pkg_id) = ''removePackage''"
| "action_key (PromoteSubAdmin userId) = ''promoteSubAdmin''"
| "action_key (DemoteSubAdmin userId) = ''demoteSubAdmin''"
| "action_key (ApproveRecoveryRequest requestId) = ''approveRecoveryRequest''"
| "action_key (AddUniversalVideo title url) = ''addUniversalVideo''"
| "action_key (SaveCustomBloggerPage html) = ''saveCustomBloggerPage''"
| "action_key RunAutoPilot = ''runAutoPilot''"

text \<open>The keys of the \<open>ActionRegistry\<close> object, in the order they are written.\<close>

definition ActionRegistry_keys :: "string list" where
  "ActionRegistry_keys =
     [''deleteUser'', ''updateUser'', ''banUser'', ''unbanUser'', ''grantSubscription'',
      ''broadcastMessage'', ''sendInboxMessage'', ''createWeeklyTest'', ''scanUsers'',
      ''getRecentLogs'', ''addSubject'', ''generateGiftCodes'', ''updateSystemSettings'',
      ''toggleSetting'', ''addPackage'', ''removePackage'', ''promoteSubAdmin'',
      ''demoteSubAdmin'', ''approveRecoveryRequest'', ''addUniversalVideo'',
      ''saveCustomBloggerPage'', ''runAutoPilot'']"

section \<open>The tool definitions\<close>

text \<open>
  A tool descriptor is \<open>{type, function: {name, description, parameters}}\<close>, the parameters a
  JSON Schema object \<open>{type, properties, required}\<close>. A property has a type and, for some, an
  \<open>enum\<close>. \<open>None\<close> is a key the source leaves out.
\<close>

record prop_schema =
  prop_type :: string
  prop_enum :: "string list option"

record parameters =
  param_type :: string
  properties :: "(string \<times> prop_schema) list"
  required :: "string list option"

record tool_function =
  fn_name :: string
  fn_description :: string
  fn_parameters :: parameters

record tool =
  tool_type :: string
  tool_function :: tool_function

definition plain :: "string \<Rightarrow> prop_schema" where
  "plain t = \<lparr> prop_type = t, prop_enum = None \<rparr>"

definition enum :: "string list \<Rightarrow> prop_schema" where
  "enum vs = \<lparr> prop_type = ''string'', prop_enum = Some vs \<rparr>"

definition function_tool :: "string \<Rightarrow> string \<Rightarrow> (string \<times> prop_schema) list \<Rightarrow> string list option \<Rightarrow> tool" where
  "function_tool n d ps req =
     \<lparr> tool_type = ''function'',
       tool_function = \<lparr> fn_name = n, fn_description = d,
                         fn_parameters = \<lparr> param_type = ''object'', properties = ps, required = req \<rparr> \<rparr> \<rparr>"

definition adminTools :: "tool list" where
  "adminTools =
     [function_tool ''deleteUser'' ''Delete a user permanently.''
        [(''userId'', plain ''string'')] (Some [''userId'']),
      function_tool ''updateUser'' ''Update user details (credits, etc).''
        [(''userId'', plain ''string''), (''updates'', plain ''object'')] (Some [''userId'', ''updates'']),
      function_tool ''grantSubscription'' ''Give a premium subscription.''
        [(''userId'', plain ''string''),
         (''plan'', enum [''WEEKLY'', ''MONTHLY'', ''YEARLY'', ''LIFETIME'']),
         (''level'', enum [''BASIC'', ''ULTRA''])] (Some [''userId'', ''plan'', ''level'']),
      function_tool ''banUser'' ''Ban a user.''
        [(''userId'', plain ''string''), (''reason'', plain ''string'')] (Some [''userId'']),
      function_tool ''unbanUser'' ''Unban a user.''
        [(''userId'', plain ''string'')] (Some [''userId'']),
      function_tool ''broadcastMessage'' ''Set a global banner message.''
        [(''message'', plain ''string'')] (Some [''message'']),
      function_tool ''sendInboxMessage'' ''Send private message.''
        [(''userId'', plain ''string''), (''text'', plain ''string'')] (Some [''userId'', ''text'']),
      function_tool ''scanUsers'' ''List users.''
        [(''filter'', enum [''ALL'', ''PREMIUM'', ''FREE'', ''INACTIVE''])] (Some [''filter'']),
      function_tool ''generateGiftCodes'' ''Generate redeem codes.''
        [(''amount'', plain ''number''), (''count'', plain ''number''),
         (''type'', enum [''CREDITS'', ''SUBSCRIPTION''])] (Some [''amount'', ''count'']),
      function_tool ''toggleSetting'' ''Toggle a system boolean setting (maintenance, ai, autopilot).''
        [(''key'', enum [''maintenanceMode'', ''isAiEnabled'', ''isAutoPilotEnabled'',
                         ''isChatEnabled'', ''isGameEnabled'']),
         (''value'', plain ''boolean'')] (Some [''key'', ''value'']),
      function_tool ''promoteSubAdmin'' ''Make user a Sub-Admin.''
        [(''userId'', plain ''string'')] (Some [''userId'']),
      function_tool ''demoteSubAdmin'' ''Remove Sub-Admin rights.''
        [(''userId'', plain ''string'')] (Some [''userId'']),
      function_tool ''runAutoPilot'' ''Trigger AI Auto-Pilot once.'' [] None]"

text \<open>
  The names a schema's \<open>required\<close> list holds; a schema without the key requires nothing.
\<close>

definition required_names :: "parameters \<Rightarrow> string list" where
  "required_names ps = (case required ps of None \<Rightarrow> [] | Some rs \<Rightarrow> rs)"

text \<open>
  What is asked of one descriptor: type \<open>function\<close>, a name and a description that are not
  empty, an object schema whose \<open>required\<close> names are all among its declared properties, and
  a name that is a key of the registry.
\<close>

definition tool_ok :: "tool \<Rightarrow> bool" where
  "tool_ok t =
     (tool_type t = ''function'' \<and>
      fn_name (tool_function t) \<noteq> [] \<and>
      fn_description (tool_function t) \<noteq> [] \<and>
      param_type (fn_parameters (tool_function t)) = ''object'' \<and>
      list_all (\<lambda>r. r \<in> set (map fst (properties (fn_parameters (tool_function t)))))
        (required_names (fn_parameters (tool_function t))) \<and>
      fn_name (tool_function t) \<in> set ActionRegistry_keys)"

section \<open>Interleaved invocations\<close>

text \<open>
  JavaScript runs an asynchronous function without interruption up to its next call on a
  service; there another invocation can take its turn. One step of an invocation is
  therefore one call answered. A schedule says whose turn each step is: \<open>True\<close> for the
  first invocation, \<open>False\<close> for the second. (Reading the clock and drawing a random number
  are steps here too, though JavaScript does not switch there; the schedule used below
  switches at calls on the stores only.)
\<close>

primrec step :: "'w handler \<Rightarrow> 'a prog \<Rightarrow> 'w \<Rightarrow> 'a prog \<times> event list \<times> 'w" where
  "step H (Return a) w = (Return a, [], w)"
| "step H (Throw e) w = (Throw e, [], w)"
| "step H (Fetch s k) w = (let (r, w1) = on_fetch H w s in (k r, [EFetch s r], w1))"
| "step H (GetDocs q k) w = (let (r, w1) = on_docs H w q in (k r, [EDocs q r], w1))"
| "step H (GetItem i k) w = (let (r, w1) = on_item H w i in (k r, [EItem i r], w1))"
| "step H (Exec c k) w = (let (r, w1) = on_exec H w c in (k r, [EExec c r], w1))"
| "step H (Now k) w = (let (r, w1) = on_now H w in (k r, [ENow r], w1))"
| "step H (Random k) w = (let (r, w1) = on_random H w in (k r, [ERandom r], w1))"
| "step H (ConsoleError m e p) w = (p, [ELog m e], w)"

text \<open>
  The two invocations after the schedule, the calls made by both in the order they were
  answered, and the state of the services.
\<close>

fun interleave ::
  "'w handler \<Rightarrow> bool list \<Rightarrow> 'a prog \<Rightarrow> 'a prog \<Rightarrow> 'w \<Rightarrow> 'a prog \<times> 'a prog \<times> event list \<times> 'w" where
  "interleave H [] p q w = (p, q, [], w)"
| "interleave H (first # sched) p q w =
     (if first then
        (let (p', ev, w1) = step H p w; (p'', q'', tr, w2) = interleave H sched p' q w1
         in (p'', q'', ev @ tr, w2))
      else
        (let (q', ev, w1) = step H q w; (p'', q'', tr, w2) = interleave H sched p q' w1
         in (p'', q'', ev @ tr, w2)))"

section \<open>Two services to run the actions against\<close>

text \<open>
  Modelled from the spec: \<open>saveUserToLive\<close> and \<open>saveSystemSettings\<close> are functions of the
  \<open>firebase\<close> module, which is not among the sources. The spec describes an update as "read
  current record, merge partial update, write back", with no version check; so here
  \<open>saveUserToLive\<close> stores the record it is given in the place of the user whose \<open>id\<close> the
  record carries, \<open>saveSystemSettings\<close> stores the settings in the place \<open>getSettings\<close> reads,
  and each overwrites what was there. The realtime database is a list of paths with their
  values, the \<open>users\<close> collection a list of documents; \<open>set\<close> stores a value under its path
  unless the value holds \<open>undefined\<close>; the other stores are empty and accept every write, the
  clock counts the times it is read, and the random generator answers 0.
\<close>

record store =
  rtdb :: "(string \<times> json) list"
  user_docs :: "json list"
  clock :: int

definition store_fetch :: "store \<Rightarrow> source \<Rightarrow> (exn + json) \<times> store" where
  "store_fetch w s =
     (case s of
        Rtdb path \<Rightarrow> (Inr (case map_of (rtdb w) path of Some v \<Rightarrow> v | None \<Rightarrow> JNull), w)
      | ChapterData k \<Rightarrow> (Inr JNull, w))"

text \<open>
  A value with \<open>undefined\<close> anywhere in it. The database client refuses to \<open>set\<close> such a
  value: the call is rejected with an error and nothing is stored.
\<close>

fun has_undefined :: "json \<Rightarrow> bool" where
  "has_undefined JUndef = True"
| "has_undefined (JArr xs) = list_ex has_undefined xs"
| "has_undefined (JObj kvs) = list_ex has_undefined (map snd kvs)"
| "has_undefined x = False"

definition store_exec :: "store \<Rightarrow> command \<Rightarrow> exn option \<times> store" where
  "store_exec w c =
     (case c of
        SaveUserToLive u \<Rightarrow>
          (None, w\<lparr>rtdb := AList.update (''users/'' @ to_string (get_prop u ''id'')) u (rtdb w)\<rparr>)
      | SaveSystemSettings st \<Rightarrow> (None, w\<lparr>rtdb := AList.update ''system_settings'' st (rtdb w)\<rparr>)
      | RtdbSet path v \<Rightarrow>
          (if has_undefined v
           then (Some (Error ''set failed: value argument contains undefined''), w)
           else (None, w\<lparr>rtdb := AList.update path v (rtdb w)\<rparr>))
      | RtdbRemove path \<Rightarrow> (None, w\<lparr>rtdb := AList.delete path (rtdb w)\<rparr>)
      | _ \<Rightarrow> (None, w))"

definition store_handler :: "store handler" where
  "store_handler =
     \<lparr> on_fetch = store_fetch,
       on_docs = (\<lambda>w q. (Inr (case q of UsersCollection \<Rightarrow> user_docs w | AiInteractions n \<Rightarrow> []), w)),
       on_item = (\<lambda>w k. (Inr None, w)),
       on_exec = store_exec,
       on_now = (\<lambda>w. (clock w, w\<lparr>clock := clock w + 1\<rparr>)),
       on_random = (\<lambda>w. (0, w)) \<rparr>"

text \<open>Services that are out of reach: every call on them is rejected with the same error.\<close>

definition offline :: "unit handler" where
  "offline =
     \<lparr> on_fetch = (\<lambda>w s. (Inl (Error ''offline''), w)),
       on_docs = (\<lambda>w q. (Inl (Error ''offline''), w)),
       on_item = (\<lambda>w k. (Inl (Error ''offline''), w)),
       on_exec = (\<lambda>w c. (Some (Error ''offline''), w)),
       on_now = (\<lambda>w. (0, w)),
       on_random = (\<lambda>w. (0, w)) \<rparr>"

text \<open>A platform to run examples on: its functions are the simplest of their types.\<close>

definition plain_host :: host where
  "plain_host =
     \<lparr> toISOString = show_int,
       getDate = (\<lambda>t. 1),
       setDate = (\<lambda>t d. t + (d - 1) * 86400000),
       getMonth = (\<lambda>t. 0),
       setMonth = (\<lambda>t m. t + m * 2592000000),
       date_of = (\<lambda>x. case x of JNum n \<Rightarrow> Some n | _ \<Rightarrow> None),
       JSON_parse = (\<lambda>s. if s = ''[]'' then Inr (JArr []) else if s = ''{}'' then Inr (JObj [])
                           else Inl (SyntaxError ''unexpected token'')),
       JSON_stringify = to_string,
       number_toString = (\<lambda>x. show_int \<lfloor>x\<rfloor>),
       DEFAULT_SUBJECTS = JObj [] \<rparr>"

text \<open>A user record and the database holding it, for the examples.\<close>

definition user1 :: "(string \<times> json) list" where
  "user1 = [(''id'', JStr ''u1''), (''name'', JStr ''Asha''), (''credits'', JNum 5),
            (''isLocked'', JBool False)]"

definition store1 :: store where
  "store1 = \<lparr> rtdb = [(''users/u1'', JObj user1)], user_docs = [JObj user1], clock = 0 \<rparr>"

section \<open>The voice selection as the specification words it\<close>

text \<open>
  The specification's account of the voice that \<open>speakText\<close> picks when it is given none: for
  a text with a Devanagari character, the first voice whose lang includes \<open>hi\<close> and whose name
  includes \<open>Google\<close>, else the first whose lang includes \<open>hi\<close>; for any other text, the first
  voice with lang \<open>en-IN\<close> and a name including \<open>Google\<close>, else the first with lang \<open>en-IN\<close>,
  else the first whose name includes \<open>India\<close>. The language it gives the utterance of a voice
  so found is \<open>hi-IN\<close> in the first case and \<open>en-IN\<close> in the second.
\<close>

definition spec_voice :: "voice list \<Rightarrow> nat list \<Rightarrow> voice option" where
  "spec_voice voices text =
     (if isHindi text then
        or_else (find (\<lambda>v. includes_str (voice_lang v) ''hi'' \<and> includes_str (voice_name v) ''Google'') voices)
          (find (\<lambda>v. includes_str (voice_lang v) ''hi'') voices)
      else
        or_else (find (\<lambda>v. voice_lang v = ''en-IN'' \<and> includes_str (voice_name v) ''Google'') voices)
          (or_else (find (\<lambda>v. voice_lang v = ''en-IN'') voices)
             (find (\<lambda>v. includes_str (voice_name v) ''India'') voices)))"

definition spec_lang :: "nat list \<Rightarrow> string" where
  "spec_lang text = (if isHindi text then ''hi-IN'' else ''en-IN'')"

section \<open>Predicates on runs\<close>

text \<open>Every value the program can return satisfies \<open>Q\<close>, whatever the services answer.\<close>

primrec returns :: "('a \<Rightarrow> bool) \<Rightarrow> 'a prog \<Rightarrow> bool" where
  "returns Q (Return a) = Q a"
| "returns Q (Throw e) = True"
| "returns Q (Fetch s k) = (\<forall>r. returns Q (k r))"
| "returns Q (GetDocs q k) = (\<forall>r. returns Q (k r))"
| "returns Q (GetItem i k) = (\<forall>r. returns Q (k r))"
| "returns Q (Exec c k) = (\<forall>r. returns Q (k r))"
| "returns Q (Now k) = (\<forall>r. returns Q (k r))"
| "returns Q (Random k) = (\<forall>r. returns Q (k r))"
| "returns Q (ConsoleError m e p) = returns Q p"

fun is_string :: "json \<Rightarrow> bool" where
  "is_string (JStr s) = True"
| "is_string x = False"

fun is_array :: "json \<Rightarrow> bool" where
  "is_array (JArr xs) = True"
| "is_array x = False"

text \<open>The two actions of the registry that return a list.\<close>

fun returns_list :: "action \<Rightarrow> bool" where
  "returns_list (ScanUsers flt) = True"
| "returns_list (GetRecentLogs limit_arg) = True"
| "returns_list a = False"

text \<open>
  A call on a store or a service: reading the clock, drawing a random number and writing to
  the console are none, and they cannot be rejected.
\<close>

fun is_call :: "event \<Rightarrow> bool" where
  "is_call (ELog m e) = False"
| "is_call (ENow t) = False"
| "is_call (ERandom r) = False"
| "is_call ev = True"

fun rejected :: "event \<Rightarrow> bool" where
  "rejected (EFetch s (Inl e)) = True"
| "rejected (EDocs q (Inl e)) = True"
| "rejected (EItem i (Inl e)) = True"
| "rejected (EExec c (Some e)) = True"
| "rejected ev = False"

text \<open>No call follows a rejected call: nothing is tried again, nothing is tried instead.\<close>

fun no_call_after_rejection :: "event list \<Rightarrow> bool" where
  "no_call_after_rejection [] = True"
| "no_call_after_rejection (ev # tr) =
     ((if rejected ev then \<not> list_ex is_call tr else True) \<and> no_call_after_rejection tr)"

text \<open>The program makes no call on a store or a service.\<close>

primrec quiet :: "'a prog \<Rightarrow> bool" where
  "quiet (Return a) = True"
| "quiet (Throw e) = True"
| "quiet (Fetch s k) = False"
| "quiet (GetDocs q k) = False"
| "quiet (GetItem i k) = False"
| "quiet (Exec c k) = False"
| "quiet (Now k) = (\<forall>t. quiet (k t))"
| "quiet (Random k) = (\<forall>r. quiet (k r))"
| "quiet (ConsoleError m e p) = quiet p"

text \<open>The same on the tree of a program: where a call is rejected, no call follows.\<close>

primrec stops_on_rejection :: "'a prog \<Rightarrow> bool" where
  "stops_on_rejection (Return a) = True"
| "stops_on_rejection (Throw e) = True"
| "stops_on_rejection (Fetch s k) = ((\<forall>e. quiet (k (Inl e))) \<and> (\<forall>v. stops_on_rejection (k (Inr v))))"
| "stops_on_rejection (GetDocs q k) = ((\<forall>e. quiet (k (Inl e))) \<and> (\<forall>v. stops_on_rejection (k (Inr v))))"
| "stops_on_rejection (GetItem i k) = ((\<forall>e. quiet (k (Inl e))) \<and> (\<forall>v. stops_on_rejection (k (Inr v))))"
| "stops_on_rejection (Exec c k) = ((\<forall>e. quiet (k (Some e))) \<and> stops_on_rejection (k None))"
| "stops_on_rejection (Now k) = (\<forall>t. stops_on_rejection (k t))"
| "stops_on_rejection (Random k) = (\<forall>r. stops_on_rejection (k r))"
| "stops_on_rejection (ConsoleError m e p) = stops_on_rejection p"


text \<open>The values that \<open>set\<close> calls stored in a run (the accepted ones), with their paths.\<close>

fun created :: "event list \<Rightarrow> (string \<times> json) list" where
  "created [] = []"
| "created (EExec (RtdbSet path v) None # tr) = (path, v) # created tr"
| "created (ev # tr) = created tr"

text \<open>The codes of those values, in the order they were set.\<close>

definition codes_of :: "event list \<Rightarrow> string list" where
  "codes_of tr = map (\<lambda>pv. to_string (get_prop (snd pv) ''code'')) (created tr)"




section \<open>Properties of the speech module\<close>

lemma includes_str_self: "includes_str s s"
  by (cases s) simp_all

text \<open>
  C10: the three lists of \<open>getCategorizedVoices\<close> need not cover the voices given. There is a
  voice list with a voice that is in none of them: its lower-cased name contains \<open>india\<close>,
  its lang is not \<open>en-IN\<close> and includes neither \<open>en\<close> nor \<open>hi\<close>.
\<close>

theorem getCategorizedVoices_not_covering:
  "\<exists>voices v. v \<in> set voices \<and>
      includes_str (toLowerCase (voice_name v)) ''india'' \<and>
      voice_lang v \<noteq> ''en-IN'' \<and>
      \<not> includes_str (voice_lang v) ''en'' \<and>
      \<not> includes_str (voice_lang v) ''hi'' \<and>
      v \<notin> set (hindi (getCategorizedVoices voices)) \<union>
          set (indianEnglish (getCategorizedVoices voices)) \<union>
          set (others (getCategorizedVoices voices))"
proof -
  let ?v = "\<lparr>voice_lang = ''ta-IN'', voice_name = ''Tamil India''\<rparr>"
  have "?v \<in> set [?v] \<and>
      includes_str (toLowerCase (voice_name ?v)) ''india'' \<and>
      voice_lang ?v \<noteq> ''en-IN'' \<and>
      \<not> includes_str (voice_lang ?v) ''en'' \<and>
      \<not> includes_str (voice_lang ?v) ''hi'' \<and>
      ?v \<notin> set (hindi (getCategorizedVoices [?v])) \<union>
          set (indianEnglish (getCategorizedVoices [?v])) \<union>
          set (others (getCategorizedVoices [?v]))"
    by (simp add: getCategorizedVoices_def toLowerCase_def lower_char_def)
  then show ?thesis by blast
qed

text \<open>
  C5, as the specification states it, fails twice. A voice whose lang is \<open>en-IN-x-sfg\<close>
  includes \<open>en-IN\<close> without being \<open>en-IN\<close>: \<open>speakText\<close> speaks with it where the specification
  finds no voice. And the language of the utterance handed to \<open>speak\<close> is the lang of the voice:
  for a Devanagari text and a voice of lang \<open>hi_IN\<close> it is \<open>hi_IN\<close>, not \<open>hi-IN\<close>.
\<close>

theorem speakText_selection_counterexample:
  "speakText True [\<lparr>voice_lang = ''en-IN-x-sfg'', voice_name = ''Rishi''\<rparr>] [72, 105] None None None =
     [Cancel, GetVoices,
      Speak \<lparr> utter_text = [72, 105],
              utter_voice = Some \<lparr>voice_lang = ''en-IN-x-sfg'', voice_name = ''Rishi''\<rparr>,
              utter_lang = ''en-IN-x-sfg'', utter_rate = 1, utter_pitch = 1 \<rparr>] \<and>
   spec_voice [\<lparr>voice_lang = ''en-IN-x-sfg'', voice_name = ''Rishi''\<rparr>] [72, 105] = None \<and>
   speakText True [\<lparr>voice_lang = ''hi_IN'', voice_name = ''Google Hindi''\<rparr>] [2344, 2350] None None None =
     [Cancel, GetVoices,
      Speak \<lparr> utter_text = [2344, 2350],
              utter_voice = Some \<lparr>voice_lang = ''hi_IN'', voice_name = ''Google Hindi''\<rparr>,
              utter_lang = ''hi_IN'', utter_rate = 1, utter_pitch = 1 \<rparr>] \<and>
   spec_voice [\<lparr>voice_lang = ''hi_IN'', voice_name = ''Google Hindi''\<rparr>] [2344, 2350] =
     Some \<lparr>voice_lang = ''hi_IN'', voice_name = ''Google Hindi''\<rparr> \<and>
   spec_lang [2344, 2350] = ''hi-IN'' \<and> ''hi_IN'' \<noteq> ''hi-IN''"
  by (simp add: speakText_def auto_select_def spec_voice_def spec_lang_def isHindi_def
      or_else_def new_utterance_def)

text \<open>
  C5, amended: called without a voice where speech synthesis exists, \<open>speakText\<close> cancels,
  asks for the voices and speaks
  one utterance of the text, whose voice is chosen by script and by matching strings. For a text
  with a Devanagari character it is the first voice whose lang includes \<open>hi\<close> and whose name
  includes \<open>Google\<close>, else the first whose lang includes \<open>hi\<close>, else none. For any other text
  it is the first voice whose lang includes \<open>en-IN\<close> and whose name includes \<open>Google\<close>, else
  the first whose lang includes \<open>en-IN\<close>, else the first whose name includes \<open>India\<close>, else
  none.
\<close>

theorem speakText_auto_voice:
  "\<exists>u. speakText True voices text None rate lang = [Cancel, GetVoices, Speak u] \<and>
        utter_text u = text \<and>
        utter_voice u =
          (if isHindi text then
             or_else (find (\<lambda>v. includes_str (voice_lang v) ''hi'' \<and> includes_str (voice_name v) ''Google'') voices)
               (find (\<lambda>v. includes_str (voice_lang v) ''hi'') voices)
           else
             or_else (find (\<lambda>v. includes_str (voice_lang v) ''en-IN'' \<and> includes_str (voice_name v) ''Google'') voices)
               (or_else (find (\<lambda>v. includes_str (voice_lang v) ''en-IN'') voices)
                  (find (\<lambda>v. includes_str (voice_name v) ''India'') voices)))"
proof -
  have eq: "\<And>v. (voice_lang v = ''en-IN'' \<or> includes_str (voice_lang v) ''en-IN'') =
                 includes_str (voice_lang v) ''en-IN''"
    using includes_str_self by auto
  show ?thesis
    by (auto simp: speakText_def auto_select_def or_else_def new_utterance_def eq Let_def
        split: option.splits)
qed

section \<open>Properties of the tool definitions\<close>

text \<open>
  The keys of the registry are distinct, and they are the keys of the invocations: the list
  of keys and the type of invocations describe the same object.
\<close>

lemma action_key_in_keys: "action_key a \<in> set ActionRegistry_keys"
  by (cases a) (simp_all add: ActionRegistry_keys_def)

lemma keys_are_action_keys:
  "set ActionRegistry_keys =
     action_key ` {DeleteUser [], UpdateUser [] JNull, BanUser [] [], UnbanUser [],
       GrantSubscription [] WEEKLY BASIC, BroadcastMessage [], SendInboxMessage [] [],
       CreateWeeklyTest [] [] 0, ScanUsers ALL_USERS, GetRecentLogs None, AddSubject [],
       GenerateGiftCodes 0 0 None, UpdateSystemSettings JNull, ToggleSetting [] False,
       AddPackage [] 0 0, RemovePackage [], PromoteSubAdmin [], DemoteSubAdmin [],
       ApproveRecoveryRequest [], AddUniversalVideo [] [], SaveCustomBloggerPage [],
       RunAutoPilot}"
  by (simp add: ActionRegistry_keys_def)

lemma ActionRegistry_keys_range: "set ActionRegistry_keys = range action_key"
proof
  show "set ActionRegistry_keys \<subseteq> range action_key"
    unfolding keys_are_action_keys by blast
  show "range action_key \<subseteq> set ActionRegistry_keys"
    using action_key_in_keys by blast
qed

lemma ActionRegistry_keys_distinct: "distinct ActionRegistry_keys"
  by (simp add: ActionRegistry_keys_def)

text \<open>
  C4: every element of \<open>adminTools\<close> is a descriptor of type \<open>function\<close> with a name, a
  description and an object schema whose required names are all declared properties (the last
  descriptor, \<open>runAutoPilot\<close>, has no \<open>required\<close> key and no property), and the name of every
  descriptor is a key of \<open>ActionRegistry\<close>.
\<close>

theorem adminTools_wellformed: "\<forall>t \<in> set adminTools. tool_ok t"
proof -
  have "list_all tool_ok adminTools"
    by (simp add: adminTools_def tool_ok_def function_tool_def plain_def enum_def
        required_names_def ActionRegistry_keys_def)
  then show ?thesis by (simp add: list_all_iff)
qed

theorem adminTools_wellformed_witness:
  "adminTools ! 3 \<in> set adminTools \<and> fn_name (tool_function (adminTools ! 3)) = ''banUser'' \<and>
   tool_ok (adminTools ! 3)"
proof -
  have m: "adminTools ! 3 \<in> set adminTools" by (simp add: adminTools_def)
  have n: "fn_name (tool_function (adminTools ! 3)) = ''banUser''"
    by (simp add: adminTools_def function_tool_def)
  from adminTools_wellformed m have "tool_ok (adminTools ! 3)" by blast
  with m n show ?thesis by blast
qed

section \<open>Properties of the actions\<close>

subsection \<open>Merging objects\<close>

lemma update_fresh: "k \<notin> fst ` set al \<Longrightarrow> AList.update k v al = al @ [(k, v)]"
  by (induction al) auto

lemma fold_update_distinct:
  "distinct (map fst (al @ kvs)) \<Longrightarrow> fold (\<lambda>(k, v). AList.update k v) kvs al = al @ kvs"
proof (induction kvs arbitrary: al)
  case Nil
  then show ?case by simp
next
  case (Cons kv kvs)
  obtain k v where kv: "kv = (k, v)" by (cases kv)
  from Cons.prems kv have fresh: "k \<notin> fst ` set al" by auto
  from Cons.prems kv have "distinct (map fst ((al @ [(k, v)]) @ kvs))" by auto
  from Cons.IH [OF this] show ?case using kv fresh by (simp add: update_fresh)
qed

lemma spread_empty: "distinct (map fst kvs) \<Longrightarrow> spread (JObj kvs) [] = kvs"
  using fold_update_distinct [of "[]" kvs] by (simp add: spread_def)

lemma map_of_fold_update:
  "distinct (map fst kvs) \<Longrightarrow>
   map_of (fold (\<lambda>(k, v). AList.update k v) kvs al) = map_of al ++ map_of kvs"
proof (induction kvs arbitrary: al)
  case Nil
  then show ?case by simp
next
  case (Cons kv kvs)
  obtain k v where kv: "kv = (k, v)" by (cases kv)
  from Cons.prems kv have nk: "k \<notin> fst ` set kvs" and d: "distinct (map fst kvs)" by auto
  then have "map_of kvs k = None" by (simp add: map_of_eq_None_iff)
  then have step: "map_of (AList.update k v al) ++ map_of kvs = map_of al ++ map_of (kv # kvs)"
    using kv by (auto simp: map_add_def update_conv' fun_eq_iff split: option.splits)
  have "map_of (fold (\<lambda>(k, v). AList.update k v) (kv # kvs) al) =
        map_of (fold (\<lambda>(k, v). AList.update k v) kvs (AList.update k v al))"
    using kv by simp
  also have "\<dots> = map_of (AList.update k v al) ++ map_of kvs"
    by (rule Cons.IH [OF d])
  also have "\<dots> = map_of al ++ map_of (kv # kvs)"
    by (rule step)
  finally show ?case .
qed

lemma map_of_spread:
  "distinct (map fst upd) \<Longrightarrow> map_of (spread (JObj upd) target) = map_of target ++ map_of upd"
  by (simp add: spread_def map_of_fold_update)

subsection \<open>updateUser and banUser\<close>

text \<open>
  C1: for a user record \<open>cur\<close> found under \<open>users/userId\<close> and a partial update \<open>upd\<close> (both
  objects, so their keys are distinct), \<open>updateUser\<close> reads the record, and the one write it
  makes is \<open>saveUserToLive\<close> of the shallow merge: a field of the update has the update's
  value, any other field the snapshot's (this is \<open>map_of cur ++ map_of upd\<close>). It returns its
  status when the write is accepted and throws the wrapped error when it is rejected. When
  there is no record, it throws after the read, and the read is the only call: nothing is
  written.
\<close>

theorem updateUser_merges:
  fixes H :: "'w handler"
  shows
  "(distinct (map fst cur) \<and> distinct (map fst upd) \<and>
    on_fetch H w (Rtdb (''users/'' @ userId)) = (Inr (JObj cur), w1) \<and>
    on_exec H w1 (SaveUserToLive (JObj (spread (JObj upd) cur))) = (r, w2) \<longrightarrow>
      map_of (spread (JObj upd) cur) = map_of cur ++ map_of upd \<and>
      run H (updateUser userId (JObj upd)) w =
        ((case r of None \<Rightarrow> Inr (JStr (''User '' @ userId @ '' updated.''))
                  | Some e \<Rightarrow> Inl (Error (''Failed to update user: '' @ exn_message e))),
         [EFetch (Rtdb (''users/'' @ userId)) (Inr (JObj cur)),
          EExec (SaveUserToLive (JObj (spread (JObj upd) cur))) r],
         w2)) \<and>
   (on_fetch H w (Rtdb (''users/'' @ userId)) = (Inr JNull, w1) \<longrightarrow>
      run H (updateUser userId (JObj upd)) w =
        (Inl (Error ''Failed to update user: User not found''),
         [EFetch (Rtdb (''users/'' @ userId)) (Inr JNull)], w1))"
  by (auto simp: updateUser_def fetch_def exec_def snapshot_exists_def Let_def
      map_of_spread spread_empty split: option.splits)

theorem updateUser_merges_witness:
  "map_of (spread (JObj [(''credits'', JNum 10)]) user1) = map_of user1 ++ map_of [(''credits'', JNum 10)] \<and>
   run store_handler (updateUser ''u1'' (JObj [(''credits'', JNum 10)])) store1 =
     (Inr (JStr ''User u1 updated.''),
      [EFetch (Rtdb ''users/u1'') (Inr (JObj user1)),
       EExec (SaveUserToLive (JObj [(''id'', JStr ''u1''), (''name'', JStr ''Asha''),
                                     (''credits'', JNum 10), (''isLocked'', JBool False)])) None],
      \<lparr> rtdb = [(''users/u1'', JObj [(''id'', JStr ''u1''), (''name'', JStr ''Asha''),
                                      (''credits'', JNum 10), (''isLocked'', JBool False)])],
        user_docs = [JObj user1], clock = 0 \<rparr>) \<and>
   run store_handler (updateUser ''u2'' (JObj [(''credits'', JNum 10)])) store1 =
     (Inl (Error ''Failed to update user: User not found''),
      [EFetch (Rtdb ''users/u2'') (Inr JNull)], store1)"
proof -
  let ?upd = "[(''credits'', JNum 10)]"
  let ?w2 = "\<lparr> rtdb = [(''users/u1'', JObj [(''id'', JStr ''u1''), (''name'', JStr ''Asha''),
                                      (''credits'', JNum 10), (''isLocked'', JBool False)])],
        user_docs = [JObj user1], clock = 0 \<rparr>"
  have h1: "distinct (map fst user1)" by (simp add: user1_def)
  have h2: "distinct (map fst ?upd)" by simp
  have h3: "on_fetch store_handler store1 (Rtdb (''users/'' @ ''u1'')) = (Inr (JObj user1), store1)"
    by (simp add: store_handler_def store_fetch_def store1_def)
  have h4: "on_exec store_handler store1 (SaveUserToLive (JObj (spread (JObj ?upd) user1))) = (None, ?w2)"
    by (simp add: store_handler_def store_exec_def store1_def user1_def spread_def)
  have h5: "on_fetch store_handler store1 (Rtdb (''users/'' @ ''u2'')) = (Inr JNull, store1)"
    by (simp add: store_handler_def store_fetch_def store1_def)
  have s: "spread (JObj ?upd) user1 = [(''id'', JStr ''u1''), (''name'', JStr ''Asha''),
                                     (''credits'', JNum 10), (''isLocked'', JBool False)]"
    by (simp add: spread_def user1_def)
  from updateUser_merges [of user1 ?upd store_handler store1 "''u1''" store1 None ?w2] h1 h2 h3 h4
  have a: "map_of (spread (JObj ?upd) user1) = map_of user1 ++ map_of ?upd \<and>
      run store_handler (updateUser ''u1'' (JObj ?upd)) store1 =
        (Inr (JStr ''User u1 updated.''),
         [EFetch (Rtdb ''users/u1'') (Inr (JObj user1)),
          EExec (SaveUserToLive (JObj (spread (JObj ?upd) user1))) None], ?w2)"
    by simp
  from updateUser_merges [of user1 ?upd store_handler store1 "''u2''" store1 None ?w2] h5
  have b: "run store_handler (updateUser ''u2'' (JObj ?upd)) store1 =
     (Inl (Error ''Failed to update user: User not found''),
      [EFetch (Rtdb ''users/u2'') (Inr JNull)], store1)"
    by simp
  from a b s show ?thesis by simp
qed

text \<open>
  C9: for a user record \<open>cur\<close> found under \<open>users/userId\<close> and any reason, the one write of
  \<open>banUser\<close> is the record with \<open>isLocked\<close> true and every other field as it was; and the run
  of \<open>banUser\<close> (outcome, calls and the state the services are left in) is the same for any
  two reasons.
\<close>

theorem banUser_locks_only:
  fixes H :: "'w handler"
  shows
  "(distinct (map fst cur) \<and>
    on_fetch H w (Rtdb (''users/'' @ userId)) = (Inr (JObj cur), w1) \<and>
    on_exec H w1 (SaveUserToLive (JObj (AList.update ''isLocked'' (JBool True) cur))) = (r, w2) \<longrightarrow>
      map_of (AList.update ''isLocked'' (JBool True) cur) = (map_of cur)(''isLocked'' \<mapsto> JBool True) \<and>
      run H (banUser userId reason) w =
        ((case r of None \<Rightarrow> Inr (JStr (''User '' @ userId @ '' updated.''))
                  | Some e \<Rightarrow> Inl (Error (''Failed to update user: '' @ exn_message e))),
         [EFetch (Rtdb (''users/'' @ userId)) (Inr (JObj cur)),
          EExec (SaveUserToLive (JObj (AList.update ''isLocked'' (JBool True) cur))) r],
         w2)) \<and>
   run H (banUser userId reason) w = run H (banUser userId reason') w"
  by (auto simp: banUser_def updateUser_def fetch_def exec_def snapshot_exists_def Let_def
      spread_def spread_empty[unfolded spread_def, simplified] update_conv' split: option.splits)


theorem banUser_locks_only_witness:
  "map_of (AList.update ''isLocked'' (JBool True) user1) = (map_of user1)(''isLocked'' \<mapsto> JBool True) \<and>
   run store_handler (banUser ''u1'' ''spam'') store1 =
     (Inr (JStr ''User u1 updated.''),
      [EFetch (Rtdb ''users/u1'') (Inr (JObj user1)),
       EExec (SaveUserToLive (JObj [(''id'', JStr ''u1''), (''name'', JStr ''Asha''),
                                     (''credits'', JNum 5), (''isLocked'', JBool True)])) None],
      \<lparr> rtdb = [(''users/u1'', JObj [(''id'', JStr ''u1''), (''name'', JStr ''Asha''),
                                      (''credits'', JNum 5), (''isLocked'', JBool True)])],
        user_docs = [JObj user1], clock = 0 \<rparr>) \<and>
   run store_handler (banUser ''u1'' ''spam'') store1 = run store_handler (banUser ''u1'' ''abuse'') store1"
proof -
  let ?w2 = "\<lparr> rtdb = [(''users/u1'', JObj [(''id'', JStr ''u1''), (''name'', JStr ''Asha''),
                                      (''credits'', JNum 5), (''isLocked'', JBool True)])],
        user_docs = [JObj user1], clock = 0 \<rparr>"
  have h1: "distinct (map fst user1)" by (simp add: user1_def)
  have h3: "on_fetch store_handler store1 (Rtdb (''users/'' @ ''u1'')) = (Inr (JObj user1), store1)"
    by (simp add: store_handler_def store_fetch_def store1_def)
  have h4: "on_exec store_handler store1
              (SaveUserToLive (JObj (AList.update ''isLocked'' (JBool True) user1))) = (None, ?w2)"
    by (simp add: store_handler_def store_exec_def store1_def user1_def)
  have s: "AList.update ''isLocked'' (JBool True) user1 =
             [(''id'', JStr ''u1''), (''name'', JStr ''Asha''),
              (''credits'', JNum 5), (''isLocked'', JBool True)]"
    by (simp add: user1_def)
  note inst = banUser_locks_only [of user1 store_handler store1 "''u1''" store1 None ?w2 "''spam''" "''abuse''"]
  from inst h1 h3 h4
  have a: "map_of (AList.update ''isLocked'' (JBool True) user1) = (map_of user1)(''isLocked'' \<mapsto> JBool True) \<and>
      run store_handler (banUser ''u1'' ''spam'') store1 =
        (Inr (JStr ''User u1 updated.''),
         [EFetch (Rtdb ''users/u1'') (Inr (JObj user1)),
          EExec (SaveUserToLive (JObj (AList.update ''isLocked'' (JBool True) user1))) None], ?w2)"
    by simp
  from inst
  have b: "run store_handler (banUser ''u1'' ''spam'') store1 = run store_handler (banUser ''u1'' ''abuse'') store1"
    by (rule conjunct2)
  from a s
  have "map_of (AList.update ''isLocked'' (JBool True) user1) = (map_of user1)(''isLocked'' \<mapsto> JBool True) \<and>
      run store_handler (banUser ''u1'' ''spam'') store1 =
        (Inr (JStr ''User u1 updated.''),
         [EFetch (Rtdb ''users/u1'') (Inr (JObj user1)),
          EExec (SaveUserToLive (JObj [(''id'', JStr ''u1''), (''name'', JStr ''Asha''),
                                     (''credits'', JNum 5), (''isLocked'', JBool True)])) None], ?w2)"
    by simp
  with b show ?thesis by blast
qed

subsection \<open>What the actions return\<close>

lemma returns_bind [simp]:
  "returns Q (bind_prog p f) = returns (\<lambda>a. returns Q (f a)) p"
  by (induction p) simp_all

lemma returns_try_catch:
  "returns Q p \<Longrightarrow> (\<And>e. returns Q (h e)) \<Longrightarrow> returns Q (try_catch p h)"
  by (induction p) simp_all

lemma returns_any: "(\<And>a. Q a) \<Longrightarrow> returns Q p"
  by (induction p) simp_all

lemma returns_run:
  "returns Q p \<Longrightarrow> run H p w = (Inr v, tr, w') \<Longrightarrow> Q v"
  by (induction p arbitrary: w tr w') (auto simp: Let_def split: prod.splits, (meson rangeI)+)

lemma returns_exec [simp]: "returns Q (exec c) = Q ()"
  by (auto simp: exec_def split: option.splits)

lemma returns_updateUser: "returns is_string (updateUser userId updates)"
  by (simp add: updateUser_def Let_def returns_try_catch returns_any)

lemma returns_deleteUser: "returns is_string (deleteUser userId)"
  by (simp add: deleteUser_def returns_try_catch)

lemma returns_string:
  "\<not> returns_list a \<Longrightarrow> returns is_string (ActionRegistry P a)"
  by (cases a)
    (simp_all add: returns_updateUser returns_deleteUser banUser_def unbanUser_def
       grantSubscription_def Let_def broadcastMessage_def sendInboxMessage_def
       createWeeklyTest_def addSubject_def generateGiftCodes_def updateSystemSettings_def
       toggleSetting_def addPackage_def removePackage_def promoteSubAdmin_def
       demoteSubAdmin_def approveRecoveryRequest_def addUniversalVideo_def
       saveCustomBloggerPage_def runAutoPilot_def returns_any)

lemma returns_array:
  "returns_list a \<Longrightarrow> returns is_array (ActionRegistry P a)"
  by (cases a) (simp_all add: scanUsers_def getRecentLogs_def Let_def returns_try_catch returns_any)

text \<open>
  C3, as the specification states it, fails: \<open>scanUsers\<close> completes with an array of user
  summaries, which is no string. Nor does every action fetch a record and merge a patch:
  \<open>deleteUser\<close> completes after two deletions, with no read and no merge.
\<close>

theorem scanUsers_returns_no_string:
  "run store_handler (ActionRegistry plain_host (ScanUsers ALL_USERS)) store1 =
     (Inr (JArr [JObj [(''id'', JStr ''u1''), (''name'', JStr ''Asha''), (''email'', JUndef),
                       (''role'', JUndef), (''credits'', JNum 5), (''tier'', JUndef)]]),
      [EDocs UsersCollection (Inr [JObj user1])], store1) \<and>
   \<not> is_string (JArr [JObj [(''id'', JStr ''u1''), (''name'', JStr ''Asha''), (''email'', JUndef),
                       (''role'', JUndef), (''credits'', JNum 5), (''tier'', JUndef)]]) \<and>
   run store_handler (ActionRegistry plain_host (DeleteUser ''u1'')) store1 =
     (Inr (JStr ''User u1 deleted successfully from Firestore and RTDB.''),
      [EExec (DeleteDoc ''users'' ''u1'') None, EExec (RtdbRemove ''users/u1'') None],
      store1\<lparr>rtdb := []\<rparr>)"
  by (simp add: scanUsers_def getAllUsers_def getDocs_def deleteUser_def exec_def
      store_handler_def store_exec_def store1_def user1_def)

text \<open>
  C3, amended: whatever the services answer, an action of the registry that completes
  returns a string, except \<open>scanUsers\<close> and \<open>getRecentLogs\<close>, which return an array.
\<close>

theorem actions_return_string_or_list:
  "run H (ActionRegistry P a) w = (Inr v, tr, w') \<longrightarrow>
     (if returns_list a then is_array v else is_string v)"
proof (intro impI)
  assume r: "run H (ActionRegistry P a) w = (Inr v, tr, w')"
  show "if returns_list a then is_array v else is_string v"
  proof (cases "returns_list a")
    case True
    with returns_run [OF returns_array r] show ?thesis by simp
  next
    case False
    with returns_run [OF returns_string r] show ?thesis by simp
  qed
qed

theorem actions_return_string_or_list_witness:
  "run store_handler (ActionRegistry plain_host (UnbanUser ''u1'')) store1 =
     (Inr (JStr ''User u1 updated.''),
      [EFetch (Rtdb ''users/u1'') (Inr (JObj user1)),
       EExec (SaveUserToLive (JObj user1)) None], store1) \<and>
   is_string (JStr ''User u1 updated.'') \<and>
   run store_handler (ActionRegistry plain_host (GetRecentLogs None)) store1 =
     (Inr (JArr []), [EDocs (AiInteractions 20) (Inr [])], store1) \<and>
   is_array (JArr [])"
proof -
  have r1: "run store_handler (ActionRegistry plain_host (UnbanUser ''u1'')) store1 =
     (Inr (JStr ''User u1 updated.''),
      [EFetch (Rtdb ''users/u1'') (Inr (JObj user1)),
       EExec (SaveUserToLive (JObj user1)) None], store1)"
    by (simp add: unbanUser_def updateUser_def fetch_def exec_def snapshot_exists_def spread_def
        store_handler_def store_fetch_def store_exec_def store1_def user1_def)
  have r2: "run store_handler (ActionRegistry plain_host (GetRecentLogs None)) store1 =
     (Inr (JArr []), [EDocs (AiInteractions 20) (Inr [])], store1)"
    by (simp add: getRecentLogs_def getDocs_def store_handler_def)
  from actions_return_string_or_list [of store_handler plain_host "UnbanUser ''u1''" store1] r1
  have s1: "is_string (JStr ''User u1 updated.'')" by simp
  from actions_return_string_or_list [of store_handler plain_host "GetRecentLogs None" store1] r2
  have s2: "is_array (JArr [])" by simp
  from r1 r2 s1 s2 show ?thesis by blast
qed

subsection \<open>Errors\<close>














subsection \<open>No retry\<close>

lemma bind_prog_assoc:
  "bind_prog (bind_prog p f) g = bind_prog p (\<lambda>a. bind_prog (f a) g)"
  by (induction p) simp_all

lemma rejected_is_call: "rejected ev \<Longrightarrow> is_call ev"
  by (cases ev) simp_all

lemma no_call_no_rejection: "\<not> list_ex is_call tr \<Longrightarrow> no_call_after_rejection tr"
  by (induction tr) (auto dest: rejected_is_call)

lemma quiet_run: "quiet p \<Longrightarrow> \<not> list_ex is_call (fst (snd (run H p w)))"
  by (induction p arbitrary: w) (simp_all add: Let_def split_beta)

lemma stops_on_rejection_run:
  "stops_on_rejection p \<Longrightarrow> no_call_after_rejection (fst (snd (run H p w)))"
proof (induction p arbitrary: w)
  case (Fetch s k)
  obtain r w1 where a: "on_fetch H w s = (r, w1)" by (cases "on_fetch H w s")
  show ?case
  proof (cases r)
    case (Inl e)
    with Fetch.prems have "quiet (k r)" by simp
    from quiet_run [OF this, of H w1] no_call_no_rejection a Inl show ?thesis
      by (auto simp: Let_def split: prod.splits)
  next
    case (Inr v)
    with Fetch.prems have "stops_on_rejection (k r)" by simp
    from Fetch.IH [OF rangeI this, of w1] a Inr show ?thesis
      by (auto simp: Let_def split: prod.splits)
  qed
next
  case (GetDocs s k)
  obtain r w1 where a: "on_docs H w s = (r, w1)" by (cases "on_docs H w s")
  show ?case
  proof (cases r)
    case (Inl e)
    with GetDocs.prems have "quiet (k r)" by simp
    from quiet_run [OF this, of H w1] no_call_no_rejection a Inl show ?thesis
      by (auto simp: Let_def split: prod.splits)
  next
    case (Inr v)
    with GetDocs.prems have "stops_on_rejection (k r)" by simp
    from GetDocs.IH [OF rangeI this, of w1] a Inr show ?thesis
      by (auto simp: Let_def split: prod.splits)
  qed
next
  case (GetItem s k)
  obtain r w1 where a: "on_item H w s = (r, w1)" by (cases "on_item H w s")
  show ?case
  proof (cases r)
    case (Inl e)
    with GetItem.prems have "quiet (k r)" by simp
    from quiet_run [OF this, of H w1] no_call_no_rejection a Inl show ?thesis
      by (auto simp: Let_def split: prod.splits)
  next
    case (Inr v)
    with GetItem.prems have "stops_on_rejection (k r)" by simp
    from GetItem.IH [OF rangeI this, of w1] a Inr show ?thesis
      by (auto simp: Let_def split: prod.splits)
  qed
next
  case (Exec c k)
  obtain r w1 where a: "on_exec H w c = (r, w1)" by (cases "on_exec H w c")
  show ?case
  proof (cases r)
    case (Some e)
    with Exec.prems have "quiet (k r)" by simp
    from quiet_run [OF this, of H w1] no_call_no_rejection a Some show ?thesis
      by (auto simp: Let_def split: prod.splits)
  next
    case None
    with Exec.prems have "stops_on_rejection (k r)" by simp
    from Exec.IH [OF rangeI this, of w1] a None show ?thesis
      by (auto simp: Let_def split: prod.splits)
  qed
next
  case (Now k)
  obtain r w1 where a: "on_now H w = (r, w1)" by (cases "on_now H w")
  from Now.prems have "stops_on_rejection (k r)" by simp
  from Now.IH [OF rangeI this, of w1] a show ?case
    by (auto simp: Let_def split: prod.splits)
next
  case (Random k)
  obtain r w1 where a: "on_random H w = (r, w1)" by (cases "on_random H w")
  from Random.prems have "stops_on_rejection (k r)" by simp
  from Random.IH [OF rangeI this, of w1] a show ?case
    by (auto simp: Let_def split: prod.splits)
qed (simp_all add: Let_def split_beta)

lemma stops_random_code:
  "(\<And>c. stops_on_rejection (f c)) \<Longrightarrow> stops_on_rejection (bind_prog (random_code j code) f)"
proof (induction j code rule: random_code.induct)
  case (1 j code)
  show ?case
  proof (cases "j < 12")
    case True
    with "1.IH" "1.prems" show ?thesis by (simp add: random_code.simps [of j code])
  next
    case False
    with "1.prems" show ?thesis by (simp add: random_code.simps [of j code])
  qed
qed

lemma stops_gift_loop:
  "(\<And>cs. stops_on_rejection (f cs)) \<Longrightarrow>
   stops_on_rejection (bind_prog (gift_loop P amount n gtype i newCodes) f)"
proof (induction P amount n gtype i newCodes rule: gift_loop.induct)
  case (1 P amount n gtype i newCodes)
  show ?case
  proof (cases "i < n")
    case True
    with "1.IH" "1.prems" show ?thesis
      by (simp add: gift_loop.simps [of P amount n gtype i newCodes] bind_prog_assoc
          stops_random_code exec_def Let_def)
  next
    case False
    with "1.prems" show ?thesis by (simp add: gift_loop.simps [of P amount n gtype i newCodes])
  qed
qed


lemma stops_updateUser: "stops_on_rejection (updateUser userId updates)"
  by (simp add: updateUser_def fetch_def exec_def Let_def)

lemma stops_bind_updateUser:
  "(\<And>v. stops_on_rejection (f v)) \<Longrightarrow> stops_on_rejection (bind_prog (updateUser userId updates) f)"
  by (simp add: updateUser_def fetch_def exec_def Let_def)

lemma stops_bind_getSettings:
  "quiet (f JNull) \<Longrightarrow> (\<And>v. stops_on_rejection (f v)) \<Longrightarrow>
   stops_on_rejection (bind_prog getSettings f)"
  by (simp add: getSettings_def fetch_def Let_def)

lemma stops_bind_lift:
  "(\<And>v. stops_on_rejection (f v)) \<Longrightarrow> stops_on_rejection (bind_prog (lift r) f)"
  by (cases r) (simp_all add: lift_def)

lemma stops_bind_exec:
  "stops_on_rejection (f ()) \<Longrightarrow> stops_on_rejection (bind_prog (exec c) f)"
  by (simp add: exec_def)

lemma stops_action: "stops_on_rejection (ActionRegistry P a)"
proof (cases a)
  case (GenerateGiftCodes amount n gtype)
  then show ?thesis
    by (simp add: generateGiftCodes_def Let_def stops_gift_loop getItem_def stops_bind_lift
        stops_bind_exec)
next
  case (ScanUsers flt)
  then show ?thesis
    by (simp add: scanUsers_def getAllUsers_def getDocs_def Let_def)
next
  case (GrantSubscription userId plan level)
  then show ?thesis
    by (simp add: grantSubscription_def fetch_def Let_def stops_bind_lift stops_updateUser)
next
  case (SendInboxMessage userId msg)
  then show ?thesis
    by (simp add: sendInboxMessage_def fetch_def Let_def stops_bind_lift stops_bind_updateUser)
next
  case (CreateWeeklyTest name subject questionCount)
  then show ?thesis
    by (simp add: createWeeklyTest_def Let_def stops_bind_getSettings stops_bind_lift stops_bind_exec)
next
  case (AddPackage name price credits)
  then show ?thesis
    by (simp add: addPackage_def Let_def stops_bind_getSettings stops_bind_lift stops_bind_exec)
next
  case (RemovePackage pkg_id)
  then show ?thesis
    by (simp add: removePackage_def Let_def stops_bind_getSettings stops_bind_lift stops_bind_exec)
next
  case (AddSubject name)
  then show ?thesis
    by (simp add: addSubject_def getItem_def Let_def stops_bind_lift stops_bind_exec)
next
  case (AddUniversalVideo title url)
  then show ?thesis
    by (simp add: addUniversalVideo_def fetch_def Let_def stops_bind_lift stops_bind_exec)
next
  case (ApproveRecoveryRequest requestId)
  then show ?thesis
    by (simp add: approveRecoveryRequest_def stops_bind_exec stops_bind_updateUser)
qed (simp_all add: stops_updateUser banUser_def unbanUser_def promoteSubAdmin_def
      demoteSubAdmin_def deleteUser_def exec_def getRecentLogs_def getDocs_def Let_def
      broadcastMessage_def updateSystemSettings_def toggleSetting_def runAutoPilot_def
      saveCustomBloggerPage_def stops_bind_getSettings)

text \<open>
  C6, as the specification states it, fails. The speech helpers do cancel and do set a timer:
  \<open>speakText\<close> cancels whatever is being spoken before it speaks, \<open>stopSpeech\<close> cancels, and
  \<open>getAvailableVoices\<close>, finding no voice, sets a timer of 2000 ms to fall back on. And a call
  can be made twice in one invocation: \<open>grantSubscription\<close> reads the user, and \<open>updateUser\<close>,
  which it calls, reads the same user again.
\<close>

theorem calls_repeated_cancelled_timed:
  "speakText True [] [72, 105] None None None =
     [Cancel, GetVoices,
      Speak \<lparr> utter_text = [72, 105], utter_voice = None, utter_lang = ''en-US'',
              utter_rate = 1, utter_pitch = 1 \<rparr>] \<and>
   stopSpeech True = [Cancel] \<and>
   getAvailableVoices True [] = ([GetVoices, SetOnVoicesChanged, SetTimeout 2000], Pending) \<and>
   take 5 (fst (snd (run store_handler (ActionRegistry plain_host (GrantSubscription ''u1'' WEEKLY BASIC)) store1))) =
     [ENow 0, ENow 1, ENow 2,
      EFetch (Rtdb ''users/u1'') (Inr (JObj user1)),
      EFetch (Rtdb ''users/u1'') (Inr (JObj user1))]"
  by (simp add: speakText_def auto_select_def isHindi_def or_else_def new_utterance_def
      stopSpeech_def getAvailableVoices_def
      grantSubscription_def updateUser_def fetch_def exec_def snapshot_exists_def lift_def
      or_default_def Let_def split_beta store_handler_def store_fetch_def store1_def user1_def)

text \<open>
  C6, amended: no action of the registry tries anything again. Whatever the services answer,
  once a call of an action on a store or a service is rejected, the action makes no further
  call. The speech helpers cancel and time out: \<open>speakText\<close>, where speech synthesis exists,
  begins by cancelling; \<open>stopSpeech\<close> cancels; \<open>getAvailableVoices\<close>, given no voice, installs the
  \<open>onvoiceschanged\<close> handler and a timer of 2000 ms, whose callback resolves the pending promise
  with the voices there are then.
\<close>

theorem registry_does_not_retry:
  "no_call_after_rejection (fst (snd (run H (ActionRegistry P a) w))) \<and>
   (\<exists>calls. speakText True voices text voice rate lang = Cancel # calls) \<and>
   stopSpeech True = [Cancel] \<and>
   getAvailableVoices True [] = ([GetVoices, SetOnVoicesChanged, SetTimeout 2000], Pending) \<and>
   timeout_fallback voices Pending = ([GetVoices], Resolved voices)"
  by (simp add: stops_on_rejection_run stops_action speakText_def stopSpeech_def
      getAvailableVoices_def timeout_fallback_def resolve_def Let_def split_beta)

theorem registry_does_not_retry_witness:
  "fst (snd (run offline (ActionRegistry plain_host (ScanUsers INACTIVE)) ())) =
     [EDocs UsersCollection (Inl (Error ''offline'')),
      ELog ''Error fetching users:'' (Error ''offline''), ENow 0] \<and>
   no_call_after_rejection
     [EDocs UsersCollection (Inl (Error ''offline'')),
      ELog ''Error fetching users:'' (Error ''offline''), ENow 0] \<and>
   speakText True [] [72, 105] None None None =
     Cancel # [GetVoices,
      Speak \<lparr> utter_text = [72, 105], utter_voice = None, utter_lang = ''en-US'',
              utter_rate = 1, utter_pitch = 1 \<rparr>]"
proof -
  have tr: "fst (snd (run offline (ActionRegistry plain_host (ScanUsers INACTIVE)) ())) =
     [EDocs UsersCollection (Inl (Error ''offline'')),
      ELog ''Error fetching users:'' (Error ''offline''), ENow 0]"
    by (simp add: scanUsers_def getAllUsers_def getDocs_def offline_def Let_def)
  from registry_does_not_retry [of offline plain_host "ScanUsers INACTIVE" "()"]
  have "no_call_after_rejection (fst (snd (run offline (ActionRegistry plain_host (ScanUsers INACTIVE)) ())))"
    by (rule conjunct1)
  with tr have n: "no_call_after_rejection
     [EDocs UsersCollection (Inl (Error ''offline'')),
      ELog ''Error fetching users:'' (Error ''offline''), ENow 0]"
    by simp
  have sp: "speakText True [] [72, 105] None None None =
     Cancel # [GetVoices,
      Speak \<lparr> utter_text = [72, 105], utter_voice = None, utter_lang = ''en-US'',
              utter_rate = 1, utter_pitch = 1 \<rparr>]"
    by (simp add: speakText_def auto_select_def isHindi_def or_else_def new_utterance_def)
  from tr n sp show ?thesis by blast
qed

subsection \<open>generateGiftCodes\<close>


lemma created_append: "created (a @ b) = created a @ created b"
  by (induction a rule: created.induct) simp_all


lemma codes_of_append: "codes_of (a @ b) = codes_of a @ codes_of b"
  by (simp add: codes_of_def created_append)















lemma store_ops [simp]:
  "on_now store_handler w = (clock w, w\<lparr>clock := clock w + 1\<rparr>)"
  "on_exec store_handler = store_exec"
  "on_item store_handler w k = (Inr None, w)"
  by (simp_all add: store_handler_def)








subsection \<open>Two invocations at once\<close>

text \<open>
  C7: \<open>updateUser\<close> reads, merges and writes, and its write carries the merged record and
  nothing that says which snapshot it was merged onto. So when two invocations for the same
  user take turns (both read, then both write) and both reads are answered with the same
  snapshot, both writes are accepted and both invocations report success, yet the record
  written last is the second update merged onto that snapshot: in a field \<open>k\<close> that the second
  update does not set it has the snapshot's value, whatever the first invocation wrote there.
\<close>

theorem concurrent_updates_clobber:
  fixes H :: "'w handler"
  shows
  "distinct (map fst cur) \<and> distinct (map fst updB) \<and>
   on_fetch H w (Rtdb (''users/'' @ userId)) = (Inr (JObj cur), w1) \<and>
   on_fetch H w1 (Rtdb (''users/'' @ userId)) = (Inr (JObj cur), w2) \<and>
   on_exec H w2 (SaveUserToLive (JObj (spread (JObj updA) cur))) = (None, w3) \<and>
   on_exec H w3 (SaveUserToLive (JObj (spread (JObj updB) cur))) = (None, w4) \<and>
   map_of updB k = None \<longrightarrow>
     interleave H [True, False, True, False]
       (updateUser userId (JObj updA)) (updateUser userId (JObj updB)) w =
       (Return (JStr (''User '' @ userId @ '' updated.'')),
        Return (JStr (''User '' @ userId @ '' updated.'')),
        [EFetch (Rtdb (''users/'' @ userId)) (Inr (JObj cur)),
         EFetch (Rtdb (''users/'' @ userId)) (Inr (JObj cur)),
         EExec (SaveUserToLive (JObj (spread (JObj updA) cur))) None,
         EExec (SaveUserToLive (JObj (spread (JObj updB) cur))) None],
        w4) \<and>
     map_of (spread (JObj updB) cur) k = map_of cur k"
  by (auto simp: updateUser_def fetch_def exec_def snapshot_exists_def Let_def
      spread_empty map_of_spread map_add_def)

theorem concurrent_updates_clobber_witness:
  "interleave store_handler [True, False, True, False]
       (updateUser ''u1'' (JObj [(''credits'', JNum 10)]))
       (updateUser ''u1'' (JObj [(''isLocked'', JBool True)])) store1 =
       (Return (JStr ''User u1 updated.''),
        Return (JStr ''User u1 updated.''),
        [EFetch (Rtdb ''users/u1'') (Inr (JObj user1)),
         EFetch (Rtdb ''users/u1'') (Inr (JObj user1)),
         EExec (SaveUserToLive (JObj (spread (JObj [(''credits'', JNum 10)]) user1))) None,
         EExec (SaveUserToLive (JObj (spread (JObj [(''isLocked'', JBool True)]) user1))) None],
        store1\<lparr>rtdb := [(''users/u1'', JObj [(''id'', JStr ''u1''), (''name'', JStr ''Asha''),
                                             (''credits'', JNum 5), (''isLocked'', JBool True)])]\<rparr>) \<and>
   map_of (spread (JObj [(''isLocked'', JBool True)]) user1) ''credits'' = Some (JNum 5) \<and>
   map_of (spread (JObj [(''credits'', JNum 10)]) user1) ''credits'' = Some (JNum 10)"
proof -
  let ?A = "[(''credits'', JNum 10)]"
  let ?B = "[(''isLocked'', JBool True)]"
  let ?wA = "store1\<lparr>rtdb := [(''users/u1'', JObj [(''id'', JStr ''u1''), (''name'', JStr ''Asha''),
                                             (''credits'', JNum 10), (''isLocked'', JBool False)])]\<rparr>"
  let ?wB = "store1\<lparr>rtdb := [(''users/u1'', JObj [(''id'', JStr ''u1''), (''name'', JStr ''Asha''),
                                             (''credits'', JNum 5), (''isLocked'', JBool True)])]\<rparr>"
  have h1: "distinct (map fst user1)" "distinct (map fst ?B)" by (simp_all add: user1_def)
  have h2: "on_fetch store_handler store1 (Rtdb (''users/'' @ ''u1'')) = (Inr (JObj user1), store1)"
    by (simp add: store_handler_def store_fetch_def store1_def)
  have h3: "on_exec store_handler store1 (SaveUserToLive (JObj (spread (JObj ?A) user1))) = (None, ?wA)"
    by (simp add: store_handler_def store_exec_def store1_def user1_def spread_def)
  have h4: "on_exec store_handler ?wA (SaveUserToLive (JObj (spread (JObj ?B) user1))) = (None, ?wB)"
    by (simp add: store_handler_def store_exec_def store1_def user1_def spread_def)
  have h5: "map_of ?B ''credits'' = None" by simp
  have c: "map_of user1 ''credits'' = Some (JNum 5)" by (simp add: user1_def)
  have d: "map_of (spread (JObj ?A) user1) ''credits'' = Some (JNum 10)"
    by (simp add: spread_def user1_def)
  from concurrent_updates_clobber [of user1 ?B store_handler store1 "''u1''" store1 store1 ?A ?wA ?wB "''credits''"]
    h1 h2 h3 h4 h5 c d
  show ?thesis by simp
qed

end
